theory Spec2Isabelle
  imports Main "HOL-Library.Sublist" "HOL-Library.Word"
begin

section \<open>JavaScript strings\<close>

text \<open>
  A JavaScript string is a sequence of UTF-16 code units. It is modelled as a list of
  natural numbers, one per code unit, so that the em dash (U+2014) and the bullet
  (U+2022) of the templates are single elements, as they are for \<open>length\<close> and
  \<open>trim\<close> in the program. \<open>lit\<close> reads an ASCII literal.
\<close>

type_synonym jsstring = "nat list"

type_synonym buffer = "8 word list"

definition lit :: "string \<Rightarrow> jsstring" where
  "lit s = map of_char s"

definition NL :: jsstring where
  "NL = [10]"

text \<open>
  \<open>String.prototype.trim\<close> removes white space and line terminators from both ends:
  TAB, LF, VT, FF, CR, SPACE, NBSP, U+1680, U+2000 to U+200A, U+2028, U+2029, U+202F,
  U+205F, U+3000 and U+FEFF.
\<close>

definition isWhiteSpace :: "nat \<Rightarrow> bool" where
  "isWhiteSpace c =
     (c = 9 \<or> c = 10 \<or> c = 11 \<or> c = 12 \<or> c = 13 \<or> c = 32 \<or> c = 160 \<or> c = 5760 \<or>
      (8192 \<le> c \<and> c \<le> 8202) \<or> c = 8232 \<or> c = 8233 \<or> c = 8239 \<or> c = 8287 \<or>
      c = 12288 \<or> c = 65279)"

definition trimStart :: "jsstring \<Rightarrow> jsstring" where
  "trimStart s = dropWhile isWhiteSpace s"

definition trimEnd :: "jsstring \<Rightarrow> jsstring" where
  "trimEnd s = rev (dropWhile isWhiteSpace (rev s))"

definition trim :: "jsstring \<Rightarrow> jsstring" where
  "trim s = trimEnd (trimStart s)"

text \<open>\<open>Array.prototype.join\<close> on an array of strings.\<close>

fun join :: "jsstring \<Rightarrow> jsstring list \<Rightarrow> jsstring" where
  "join sep [] = []"
| "join sep [x] = x"
| "join sep (x # y # ys) = x @ sep @ join sep (y # ys)"

text \<open>
  \<open>String.prototype.includes\<close>: the argument occurs somewhere in the string
  (\<open>includes\<close> is a keyword of the theory language, hence the suffix).
\<close>

fun includesStr :: "jsstring \<Rightarrow> jsstring \<Rightarrow> bool" where
  "includesStr [] sub = (sub = [])"
| "includesStr (c # s) sub = (prefix sub (c # s) \<or> includesStr s sub)"

section \<open>The document renderer of download-resume\<close>

record experience =
  title :: jsstring
  company :: jsstring
  duration :: jsstring
  bullets :: "jsstring list"

record education =
  degree :: jsstring
  institution :: jsstring
  eduDuration :: jsstring

record referee =
  refName :: jsstring
  refTitle :: jsstring
  refCompany :: jsstring
  refPhone :: jsstring
  refEmail :: jsstring

text \<open>
  An element of \<open>references\<close> is a referee object or a plain string, as in
  \<open>["Available upon request"]\<close>.
\<close>

datatype reference = Referee referee | Phrase jsstring

text \<open>
  The rewritten resume, as the rewrite prompt fixes its shape. \<open>certifications\<close> may be
  absent: the handler reads it through \<open>|| []\<close> and \<open>?.length\<close>.
\<close>

record rewrittenResume =
  name :: jsstring
  email :: jsstring
  phone :: jsstring
  location :: jsstring
  summary :: jsstring
  experiences :: "experience list"
  educations :: "education list"
  skills :: "jsstring list"
  certifications :: "jsstring list option"
  references :: "reference list"

definition emDash :: jsstring where
  "emDash = [32, 8212, 32]"

definition bulletLine :: "jsstring \<Rightarrow> jsstring" where
  "bulletLine b = [8226, 32] @ b"

definition contactLine :: "rewrittenResume \<Rightarrow> jsstring" where
  "contactLine r = email r @ lit '' | '' @ phone r @ lit '' | '' @ location r"

definition educationLine :: "education \<Rightarrow> jsstring" where
  "educationLine e =
     degree e @ emDash @ institution e @ lit '' ('' @ eduDuration e @ lit '')''"

definition skillsLine :: "rewrittenResume \<Rightarrow> jsstring" where
  "skillsLine r = join (lit '', '') (skills r)"

definition certificationsOrEmpty :: "rewrittenResume \<Rightarrow> jsstring list" where
  "certificationsOrEmpty r = (case certifications r of None \<Rightarrow> [] | Some cs \<Rightarrow> cs)"

text \<open>The inner template of the plain-text experience section, one per entry.\<close>

definition experienceHeading :: "experience \<Rightarrow> jsstring" where
  "experienceHeading exp =
     title exp @ emDash @ company exp @ lit '' ('' @ duration exp @ lit '')''"

definition experienceBlock :: "experience \<Rightarrow> jsstring" where
  "experienceBlock exp =
     NL @ experienceHeading exp @ NL @
     join NL (map bulletLine (bullets exp)) @ NL"

text \<open>The template literal of \<open>plainText\<close>, before and after \<open>.trim()\<close>.\<close>

definition plainTextTemplate :: "rewrittenResume \<Rightarrow> jsstring" where
  "plainTextTemplate r =
     NL @ name r @ NL @
     contactLine r @ NL @
     NL @
     lit ''PROFESSIONAL SUMMARY'' @ NL @
     summary r @ NL @
     NL @
     lit ''EXPERIENCE'' @ NL @
     join NL (map experienceBlock (experiences r)) @ NL @
     NL @
     lit ''EDUCATION'' @ NL @
     join NL (map educationLine (educations r)) @ NL @
     NL @
     lit ''SKILLS'' @ NL @
     skillsLine r @ NL @
     NL @
     lit ''CERTIFICATIONS'' @ NL @
     join NL (certificationsOrEmpty r) @ NL @
     lit ''    ''"

definition plainText :: "rewrittenResume \<Rightarrow> jsstring" where
  "plainText r = trim (plainTextTemplate r)"

subsection \<open>The word-processing document\<close>

text \<open>
  The objects handed to the docx library: a paragraph has an optional \<open>text\<close>, an
  optional heading level and a list of text runs (\<open>children\<close>); a run has a text and
  may be bold.
\<close>

datatype headingLevel = TITLE | HEADING_1

record TextRun =
  runText :: jsstring
  bold :: bool

record Paragraph =
  ptext :: "jsstring option"
  heading :: "headingLevel option"
  runs :: "TextRun list"

record docSection =
  children :: "Paragraph list"

text \<open>
  \<open>new Document(...)\<close> keeps the sections it is given and stamps the document with the
  time of its creation (the docx library writes it into the core properties as
  \<open>dcterms:created\<close> and \<open>dcterms:modified\<close>). The time is a clock reading in
  milliseconds.
\<close>

record Document =
  sections :: "docSection list"
  created :: nat

definition textParagraph :: "jsstring \<Rightarrow> Paragraph" where
  "textParagraph t = \<lparr>ptext = Some t, heading = None, runs = []\<rparr>"

definition headingParagraph :: "jsstring \<Rightarrow> headingLevel \<Rightarrow> Paragraph" where
  "headingParagraph t h = \<lparr>ptext = Some t, heading = Some h, runs = []\<rparr>"

definition runParagraph :: "TextRun list \<Rightarrow> Paragraph" where
  "runParagraph rs = \<lparr>ptext = None, heading = None, runs = rs\<rparr>"

definition experienceParagraphs :: "experience \<Rightarrow> Paragraph list" where
  "experienceParagraphs exp =
     [runParagraph [\<lparr>runText = title exp @ emDash @ company exp, bold = True\<rparr>],
      textParagraph (duration exp)] @
     map (\<lambda>b. textParagraph (bulletLine b)) (bullets exp) @
     [textParagraph []]"

definition certificationParagraphs :: "rewrittenResume \<Rightarrow> Paragraph list" where
  "certificationParagraphs r =
     (case certifications r of
        None \<Rightarrow> []
      | Some cs \<Rightarrow>
          if cs = [] then []
          else headingParagraph (lit ''CERTIFICATIONS'') HEADING_1 # map textParagraph cs)"

definition docChildren :: "rewrittenResume \<Rightarrow> Paragraph list" where
  "docChildren r =
     [headingParagraph (name r) TITLE,
      runParagraph [\<lparr>runText = contactLine r, bold = False\<rparr>],
      textParagraph [],
      headingParagraph (lit ''PROFESSIONAL SUMMARY'') HEADING_1,
      textParagraph (summary r),
      textParagraph [],
      headingParagraph (lit ''EXPERIENCE'') HEADING_1] @
     concat (map experienceParagraphs (experiences r)) @
     [headingParagraph (lit ''EDUCATION'') HEADING_1] @
     map (\<lambda>e. textParagraph (educationLine e)) (educations r) @
     [textParagraph [],
      headingParagraph (lit ''SKILLS'') HEADING_1,
      textParagraph (skillsLine r),
      textParagraph []] @
     certificationParagraphs r"

definition resumeDocument :: "nat \<Rightarrow> rewrittenResume \<Rightarrow> Document" where
  "resumeDocument now r = \<lparr>sections = [\<lparr>children = docChildren r\<rparr>], created = now\<rparr>"

section \<open>Text extraction\<close>

text \<open>
  A thrown value is either an \<open>Error\<close> made by this program with \<open>new Error(msg)\<close>, or a
  value thrown by a library (pdfjs, mammoth, the AI client, \<open>JSON.parse\<close>), of which the
  program reads only the \<open>message\<close>, if there is one.
\<close>

type_synonym thrown = "jsstring option"

datatype jsError = Error jsstring | LibraryError thrown

definition library :: "thrown + 'a \<Rightarrow> jsError + 'a" where
  "library r = (case r of Inl m \<Rightarrow> Inl (LibraryError m) | Inr v \<Rightarrow> Inr v)"

fun message :: "jsError \<Rightarrow> jsstring option" where
  "message (Error m) = Some m"
| "message (LibraryError m) = m"

text \<open>The options object passed to \<open>pdfjsLib.getDocument\<close> (\<open>data\<close> is passed beside it).\<close>

record pdfOptions =
  standardFontDataUrl :: "jsstring option"
  useSystemFonts :: bool
  disableFontFace :: bool

text \<open>
  A loaded PDF document is the list of its pages in order; reading a page
  (\<open>getPage\<close>, \<open>getTextContent\<close>) fails or yields the \<open>str\<close> of its text items.
\<close>

type_synonym pdfPage = "thrown + jsstring list"

text \<open>
  The libraries and services the server calls, as parameters: file-type's
  \<open>fileTypeFromBuffer\<close> (the \<open>mime\<close> of its answer, \<open>None\<close> for \<open>undefined\<close>),
  pdfjs's \<open>getDocument\<close>, mammoth's \<open>extractRawText\<close>, \<open>Buffer.toString('utf-8')\<close>,
  \<open>Buffer.from(_, 'base64')\<close>, the model's \<open>generateContent\<close> followed by
  \<open>response.text()\<close>, \<open>JSON.parse\<close>, the formatted current date, the directory
  \<open>path.join(process.cwd(), 'node_modules/pdfjs-dist/standard_fonts/')\<close>, the clock
  as read while the request is handled, and docx's \<open>Packer.toBuffer\<close>, which packs a
  document, time stamp included, or rejects.
\<close>

record 'j env =
  fileTypeFromBuffer :: "buffer \<Rightarrow> jsstring option"
  getDocument :: "pdfOptions \<Rightarrow> buffer \<Rightarrow> thrown + pdfPage list"
  extractRawText :: "buffer \<Rightarrow> thrown + jsstring"
  toStringUtf8 :: "buffer \<Rightarrow> jsstring"
  fromBase64 :: "jsstring \<Rightarrow> buffer"
  generateContent :: "jsstring \<Rightarrow> thrown + jsstring"
  jsonParse :: "jsstring \<Rightarrow> thrown + 'j"
  toLocaleDateString :: jsstring
  standardFontsDir :: jsstring
  dateNow :: nat
  toBuffer :: "Document \<Rightarrow> thrown + buffer"

text \<open>The page loop shared by both PDF extractors.\<close>

fun readPages :: "pdfPage list \<Rightarrow> jsstring \<Rightarrow> jsError + jsstring" where
  "readPages [] fullText = Inr fullText"
| "readPages (Inl m # pages) fullText = Inl (LibraryError m)"
| "readPages (Inr items # pages) fullText =
     readPages pages (fullText @ join (lit '' '') items @ NL)"

definition primaryOptions :: "'j env \<Rightarrow> pdfOptions" where
  "primaryOptions env =
     \<lparr>standardFontDataUrl = Some (standardFontsDir env @ lit ''/''),
      useSystemFonts = False, disableFontFace = False\<rparr>"

definition fallbackOptions :: pdfOptions where
  "fallbackOptions =
     \<lparr>standardFontDataUrl = None, useSystemFonts = True, disableFontFace = True\<rparr>"

definition extractTextFromPDF :: "'j env \<Rightarrow> buffer \<Rightarrow> jsError + jsstring" where
  "extractTextFromPDF env buffer =
     (case getDocument env (primaryOptions env) buffer of
        Inl m \<Rightarrow> Inl (LibraryError m)
      | Inr pdfDoc \<Rightarrow> readPages pdfDoc [])"

definition extractTextFromPDFFallback :: "'j env \<Rightarrow> buffer \<Rightarrow> jsError + jsstring" where
  "extractTextFromPDFFallback env buffer =
     (case getDocument env fallbackOptions buffer of
        Inl m \<Rightarrow> Inl (LibraryError m)
      | Inr pdfDoc \<Rightarrow> readPages pdfDoc [])"

definition extractTextFromDocx :: "'j env \<Rightarrow> buffer \<Rightarrow> jsError + jsstring" where
  "extractTextFromDocx env buffer = library (extractRawText env buffer)"

definition extractTextFromTxt :: "'j env \<Rightarrow> buffer \<Rightarrow> jsstring" where
  "extractTextFromTxt env buffer = toStringUtf8 env buffer"

text \<open>
  \<open>detected?.mime || mimeTypeHint\<close>, with the default \<open>""\<close> of an absent hint: the hint
  is read only when detection answers \<open>undefined\<close> (or an empty \<open>mime\<close>).
\<close>

definition detectMime :: "'j env \<Rightarrow> buffer \<Rightarrow> jsstring option \<Rightarrow> jsstring" where
  "detectMime env buffer mimeTypeHint =
     (let hint = (case mimeTypeHint of None \<Rightarrow> [] | Some h \<Rightarrow> h)
      in case fileTypeFromBuffer env buffer of
           None \<Rightarrow> hint
         | Some m \<Rightarrow> if m = [] then hint else m)"

definition fontRelated :: "jsError \<Rightarrow> bool" where
  "fontRelated err =
     (case message err of
        None \<Rightarrow> False
      | Some m \<Rightarrow> includesStr m (lit ''standardFontDataUrl'') \<or> includesStr m (lit ''font''))"

definition unsupportedFileType :: jsError where
  "unsupportedFileType =
     Error (lit ''Unsupported file type. Please upload a PDF, DOCX, DOC, or TXT file.'')"

text \<open>
  The dispatcher. Its value is the list of extractors it invoked, in order, and the
  text it returns or the error it throws.
\<close>

datatype extractor = PDF | PDFFallback | Docx | Txt

definition extractText ::
  "'j env \<Rightarrow> buffer \<Rightarrow> jsstring option \<Rightarrow> extractor list \<times> (jsError + jsstring)" where
  "extractText env buffer mimeTypeHint =
     (let mime = detectMime env buffer mimeTypeHint in
      if mime = lit ''application/pdf'' then
        (case extractTextFromPDF env buffer of
           Inr text \<Rightarrow> ([PDF], Inr text)
         | Inl err \<Rightarrow>
             if fontRelated err then ([PDF, PDFFallback], extractTextFromPDFFallback env buffer)
             else ([PDF], Inl err))
      else if mime = lit ''application/vnd.openxmlformats-officedocument.wordprocessingml.document''
              \<or> mime = lit ''application/msword'' then
        ([Docx], extractTextFromDocx env buffer)
      else
        (let text = extractTextFromTxt env buffer in
         if length (trim text) > 0 then ([Txt], Inr text)
         else ([Txt], Inl unsupportedFileType)))"

section \<open>Request handlers\<close>

text \<open>
  \<open>String.prototype.split\<close> with a string separator: the pieces between successive
  occurrences of the separator, found left to right; an empty separator splits into
  code units.
\<close>

function splitFrom :: "jsstring \<Rightarrow> jsstring \<Rightarrow> jsstring \<Rightarrow> jsstring list" where
  "splitFrom sep acc s =
     (if sep = [] then (if acc = [] then [] else [acc]) @ map (\<lambda>c. [c]) s
      else if s = [] then [acc]
      else if prefix sep s then acc # splitFrom sep [] (drop (length sep) s)
      else splitFrom sep (acc @ [hd s]) (tl s))"
  by pat_completeness auto
termination
  by (relation "measure (\<lambda>(sep, acc, s). length s)") (auto simp: prefix_def)

definition split :: "jsstring \<Rightarrow> jsstring \<Rightarrow> jsstring list" where
  "split s sep = splitFrom sep [] s"

text \<open>
  The payload of an upload: \<open>x.includes('base64,') ? x.split('base64,')[1] : x\<close>.
  Reading index 1 of a shorter array gives \<open>undefined\<close>, here \<open>None\<close>.
\<close>

definition base64Data :: "jsstring \<Rightarrow> jsstring option" where
  "base64Data x =
     (if includesStr x (lit ''base64,'') then
        (case split x (lit ''base64,'') of
           a # b # rest \<Rightarrow> Some b
         | _ \<Rightarrow> None)
      else Some x)"

text \<open>
  \<open>text.replace(/```json|```/g, "")\<close>: matches are found left to right and do not
  overlap; at each position the first alternative is tried first.
\<close>

definition fence :: jsstring where
  "fence = [96, 96, 96]"

function stripFences :: "jsstring \<Rightarrow> jsstring" where
  "stripFences s =
     (if s = [] then []
      else if prefix (fence @ lit ''json'') s then stripFences (drop 7 s)
      else if prefix fence s then stripFences (drop 3 s)
      else hd s # stripFences (tl s))"
  by pat_completeness auto
termination
  by (relation "measure length") auto

definition cleanJson :: "jsstring \<Rightarrow> jsstring" where
  "cleanJson text = trim (stripFences text)"

definition parseReply :: "'j env \<Rightarrow> jsstring \<Rightarrow> jsError + 'j" where
  "parseReply env text = library (jsonParse env (cleanJson text))"

text \<open>Responses: the status, the headers the handler sets, and what is sent.\<close>

datatype 'j responseBody =
    Failure jsstring "jsstring option"
  | CritiqueJson 'j
  | RewrittenJson 'j
  | PlainTextJson jsstring
  | SendText jsstring
  | SendBuffer buffer

record 'j response =
  status :: nat
  headers :: "(jsstring \<times> jsstring) list"
  body :: "'j responseBody"

definition failure :: "nat \<Rightarrow> jsstring \<Rightarrow> jsstring option \<Rightarrow> 'j response" where
  "failure code err details = \<lparr>status = code, headers = [], body = Failure err details\<rparr>"

definition critiquePrompt :: "jsstring \<Rightarrow> jsstring \<Rightarrow> jsstring" where
  "critiquePrompt currentDate extractedText =
     NL @
     lit ''      You are an expert resume critic. Today'' @ [39] @ lit ''s date is '' @ currentDate @ lit ''.'' @ NL @
     lit ''      Use this date as context when evaluating timelines, employment gaps, '' @ NL @
     lit ''      graduation dates, and experience durations. Do not assume any dates '' @ NL @
     lit ''      are in the future if they have already passed based on today'' @ [39] @ lit ''s date.'' @ NL @
     lit ''      '' @ NL @
     lit ''      Return ONLY a valid JSON object.'' @ NL @
     lit ''      Do not include markdown formatting, backticks, or the word '' @ [34] @ lit ''json'' @ [34] @ lit ''.'' @ NL @
     lit ''      '' @ NL @
     lit ''      {'' @ NL @
     lit ''        '' @ [34] @ lit ''strengths'' @ [34] @ lit '': '' @ [34] @ lit ''...'' @ [34] @ lit '','' @ NL @
     lit ''        '' @ [34] @ lit ''weaknesses'' @ [34] @ lit '': '' @ [34] @ lit ''...'' @ [34] @ lit '','' @ NL @
     lit ''        '' @ [34] @ lit ''suggestions'' @ [34] @ lit '': '' @ [34] @ lit ''...'' @ [34] @ lit '','' @ NL @
     lit ''        '' @ [34] @ lit ''overall'' @ [34] @ lit '': '' @ [34] @ lit ''Score /10'' @ [34] @ NL @
     lit ''      }'' @ NL @
     NL @
     lit ''      Resume content:'' @ NL @
     lit ''      '' @ extractedText @ NL @
     lit ''    ''"

record analyzeBody =
  resumeText :: "jsstring option"
  mimeType :: "jsstring option"

text \<open>
  \<open>POST /api/analyze-resume\<close>. Every \<open>throw\<close> inside the handler's \<open>try\<close> ends in its
  \<open>catch\<close>, which answers 500 with the error's message as \<open>details\<close>.
\<close>

definition bufferFromUndefined :: jsError where
  "bufferFromUndefined = LibraryError (Some (lit ''The first argument must be of type string or an instance of Buffer, ArrayBuffer, or Array or an Array-like Object. Received undefined''))"

text \<open>What the handler does with the outcome of the extraction.\<close>

definition analyzeExtracted :: "'j env \<Rightarrow> jsError + jsstring \<Rightarrow> 'j response" where
  "analyzeExtracted env extraction =
     (case extraction of
        Inl parseErr \<Rightarrow>
          failure 500 (lit ''AI analysis failed'')
            (Some (case message parseErr of
                     None \<Rightarrow> lit ''Could not read file content.''
                   | Some m \<Rightarrow> if m = [] then lit ''Could not read file content.'' else m))
      | Inr extractedText \<Rightarrow>
          if extractedText = [] \<or> length (trim extractedText) < 10 then
            failure 500 (lit ''AI analysis failed'')
              (Some (lit ''The file appears to be empty or image-based (e.g. a scanned PDF).''))
          else
            (case library (generateContent env
                    (critiquePrompt (toLocaleDateString env) extractedText)) of
               Inl err \<Rightarrow> failure 500 (lit ''AI analysis failed'') (message err)
             | Inr text \<Rightarrow>
                 (case parseReply env text of
                    Inl err \<Rightarrow> failure 500 (lit ''AI analysis failed'') (message err)
                  | Inr critique \<Rightarrow>
                      \<lparr>status = 200, headers = [], body = CritiqueJson critique\<rparr>)))"

text \<open>
  The handler: the payload of the upload is decoded by \<open>Buffer.from(_, 'base64')\<close> and
  the buffer goes to the dispatcher together with the hint.
\<close>

definition analyzeResume :: "'j env \<Rightarrow> analyzeBody \<Rightarrow> 'j response" where
  "analyzeResume env req =
     (case resumeText req of
        None \<Rightarrow> failure 400 (lit ''No resume file provided'') None
      | Some rt \<Rightarrow>
          if rt = [] then failure 400 (lit ''No resume file provided'') None
          else
            (case base64Data rt of
               None \<Rightarrow> failure 500 (lit ''AI analysis failed'') (message bufferFromUndefined)
             | Some b64 \<Rightarrow>
                 analyzeExtracted env
                   (snd (extractText env (fromBase64 env b64) (mimeType req)))))"

record critique =
  strengths :: jsstring
  weaknesses :: jsstring
  suggestions :: jsstring
  overall :: jsstring

definition rewritePrompt :: "jsstring \<Rightarrow> jsstring \<Rightarrow> critique \<Rightarrow> jsstring" where
  "rewritePrompt currentDate resumeContent critique =
     NL @
     lit ''      You are a professional resume editor. Today'' @ [39] @ lit ''s date is '' @ currentDate @ lit ''.'' @ NL @
     lit ''      '' @ NL @
     lit ''      Your job is to IMPROVE the resume'' @ [39] @ lit ''s presentation, NOT to invent or change any factual details.'' @ NL @
     lit ''      '' @ NL @
     lit ''      STRICT RULES '' @ [8212] @ lit '' you must follow these without exception:'' @ NL @
     lit ''      1. DO NOT change the person'' @ [39] @ lit ''s name, email, phone number, or location'' @ NL @
     lit ''      2. DO NOT change any company names, job titles, or employment dates'' @ NL @
     lit ''      3. DO NOT change any school names, degree names, or graduation dates'' @ NL @
     lit ''      4. DO NOT add jobs, education, or certifications that are not in the original'' @ NL @
     lit ''      5. DO NOT remove any jobs, education, or certifications from the original'' @ NL @
     lit ''      6. DO NOT invent or fabricate any facts, numbers, or achievements'' @ NL @
     lit ''      7. ONLY improve the wording, grammar, and structure of what already exists'' @ NL @
     lit ''      8. ONLY add a professional summary if one does not already exist, based strictly on the existing information'' @ NL @
     lit ''      9. Bullet points should be rewritten using strong action verbs but must reflect only what is stated in the original'' @ NL @
     lit ''      10. If the original resume contains a references section, you MUST include it exactly as-is '' @ [8212] @ lit '' do not omit, alter, or summarize it'' @ NL @
     lit ''      11. If the original says '' @ [34] @ lit ''References available upon request'' @ [34] @ lit '' or similar, preserve that exact phrase'' @ NL @
     lit ''      12. Include ALL sections from the original resume '' @ [8212] @ lit '' do not skip any section regardless of which page it was on'' @ NL @
     NL @
     lit ''      Return ONLY a valid JSON object in this exact format, no markdown, no backticks:'' @ NL @
     lit ''      {'' @ NL @
     lit ''        '' @ [34] @ lit ''name'' @ [34] @ lit '': '' @ [34] @ lit ''exact name from original'' @ [34] @ lit '','' @ NL @
     lit ''        '' @ [34] @ lit ''email'' @ [34] @ lit '': '' @ [34] @ lit ''exact email from original'' @ [34] @ lit '','' @ NL @
     lit ''        '' @ [34] @ lit ''phone'' @ [34] @ lit '': '' @ [34] @ lit ''exact phone from original'' @ [34] @ lit '','' @ NL @
     lit ''        '' @ [34] @ lit ''location'' @ [34] @ lit '': '' @ [34] @ lit ''exact location from original'' @ [34] @ lit '','' @ NL @
     lit ''        '' @ [34] @ lit ''summary'' @ [34] @ lit '': '' @ [34] @ lit ''improved or newly written summary based only on existing info'' @ [34] @ lit '','' @ NL @
     lit ''        '' @ [34] @ lit ''experience'' @ [34] @ lit '': ['' @ NL @
     lit ''          {'' @ NL @
     lit ''            '' @ [34] @ lit ''title'' @ [34] @ lit '': '' @ [34] @ lit ''exact title from original'' @ [34] @ lit '','' @ NL @
     lit ''            '' @ [34] @ lit ''company'' @ [34] @ lit '': '' @ [34] @ lit ''exact company from original'' @ [34] @ lit '','' @ NL @
     lit ''            '' @ [34] @ lit ''duration'' @ [34] @ lit '': '' @ [34] @ lit ''exact duration from original'' @ [34] @ lit '','' @ NL @
     lit ''            '' @ [34] @ lit ''bullets'' @ [34] @ lit '': ['' @ [34] @ lit ''improved wording of original bullet'' @ [34] @ lit '', '' @ [34] @ lit ''...'' @ [34] @ lit '']'' @ NL @
     lit ''          }'' @ NL @
     lit ''        ],'' @ NL @
     lit ''        '' @ [34] @ lit ''education'' @ [34] @ lit '': ['' @ NL @
     lit ''          {'' @ NL @
     lit ''            '' @ [34] @ lit ''degree'' @ [34] @ lit '': '' @ [34] @ lit ''exact degree from original'' @ [34] @ lit '','' @ NL @
     lit ''            '' @ [34] @ lit ''institution'' @ [34] @ lit '': '' @ [34] @ lit ''exact institution from original'' @ [34] @ lit '','' @ NL @
     lit ''            '' @ [34] @ lit ''duration'' @ [34] @ lit '': '' @ [34] @ lit ''exact duration from original'' @ [34] @ NL @
     lit ''          }'' @ NL @
     lit ''        ],'' @ NL @
     lit ''        '' @ [34] @ lit ''skills'' @ [34] @ lit '': ['' @ [34] @ lit ''exact skills from original, no additions'' @ [34] @ lit ''],'' @ NL @
     lit ''        '' @ [34] @ lit ''certifications'' @ [34] @ lit '': ['' @ [34] @ lit ''exact certifications from original, no additions'' @ [34] @ lit ''],'' @ NL @
     lit ''        '' @ [34] @ lit ''references'' @ [34] @ lit '': ['' @ NL @
     lit ''          {'' @ NL @
     lit ''            '' @ [34] @ lit ''name'' @ [34] @ lit '': '' @ [34] @ lit ''exact referee name'' @ [34] @ lit '','' @ NL @
     lit ''            '' @ [34] @ lit ''title'' @ [34] @ lit '': '' @ [34] @ lit ''exact referee title'' @ [34] @ lit '','' @ NL @
     lit ''            '' @ [34] @ lit ''company'' @ [34] @ lit '': '' @ [34] @ lit ''exact referee company'' @ [34] @ lit '','' @ NL @
     lit ''            '' @ [34] @ lit ''phone'' @ [34] @ lit '': '' @ [34] @ lit ''exact referee phone'' @ [34] @ lit '','' @ NL @
     lit ''            '' @ [34] @ lit ''email'' @ [34] @ lit '': '' @ [34] @ lit ''exact referee email if present'' @ [34] @ NL @
     lit ''          }'' @ NL @
     lit ''        ]'' @ NL @
     lit ''      }'' @ NL @
     NL @
     lit ''      Note on references: If the CV just says something like '' @ [34] @ lit ''References available upon request'' @ [34] @ lit '', '' @ NL @
     lit ''      set references to ['' @ [34] @ lit ''Available upon request'' @ [34] @ lit ''] instead of the array of objects above.'' @ NL @
     NL @
     lit ''      Original Resume (treat every detail in here as ground truth '' @ [8212] @ lit '' this includes ALL pages):'' @ NL @
     lit ''      '' @ resumeContent @ NL @
     NL @
     lit ''      Critique to address (use this ONLY to improve wording and structure, not to change facts):'' @ NL @
     lit ''      Strengths: '' @ strengths critique @ NL @
     lit ''      Weaknesses: '' @ weaknesses critique @ NL @
     lit ''      Suggestions: '' @ suggestions critique @ NL @
     lit ''    ''"

record rewriteBody =
  resumeFile :: "jsstring option"
  rewriteMimeType :: "jsstring option"
  critiqueField :: "critique option"

text \<open>
  \<open>POST /api/rewrite-resume\<close>. Any failure of the re-extraction, whatever its message,
  is rethrown as \<open>Could not re-read the resume file\<close>.
\<close>

definition rewriteExtracted ::
  "'j env \<Rightarrow> critique \<Rightarrow> jsError + jsstring \<Rightarrow> 'j response" where
  "rewriteExtracted env critique extraction =
     (case extraction of
        Inl parseErr \<Rightarrow>
          failure 500 (lit ''Rewrite failed'')
            (Some (lit ''Could not re-read the resume file. Please try again.''))
      | Inr resumeContent \<Rightarrow>
          if resumeContent = [] \<or> length (trim resumeContent) < 10 then
            failure 500 (lit ''Rewrite failed'')
              (Some (lit ''Could not extract enough text from the resume.''))
          else
            (case library (generateContent env
                    (rewritePrompt (toLocaleDateString env) resumeContent critique)) of
               Inl err \<Rightarrow> failure 500 (lit ''Rewrite failed'') (message err)
             | Inr text \<Rightarrow>
                 (case parseReply env text of
                    Inl err \<Rightarrow> failure 500 (lit ''Rewrite failed'') (message err)
                  | Inr rewritten \<Rightarrow>
                      \<lparr>status = 200, headers = [], body = RewrittenJson rewritten\<rparr>)))"

definition rewriteResume :: "'j env \<Rightarrow> rewriteBody \<Rightarrow> 'j response" where
  "rewriteResume env req =
     (case (resumeFile req, critiqueField req) of
        (Some rf, Some critique) \<Rightarrow>
          if rf = [] then failure 400 (lit ''Missing resume file or critique'') None
          else
            rewriteExtracted env critique
              (case base64Data rf of
                 None \<Rightarrow> Inl bufferFromUndefined
               | Some b64 \<Rightarrow>
                   snd (extractText env (fromBase64 env b64) (rewriteMimeType req)))
      | _ \<Rightarrow> failure 400 (lit ''Missing resume file or critique'') None)"

record downloadBody =
  rewrittenResumeField :: "rewrittenResume option"
  format :: "jsstring option"

definition docxMime :: jsstring where
  "docxMime = lit ''application/vnd.openxmlformats-officedocument.wordprocessingml.document''"

text \<open>
  \<open>POST /api/download-resume\<close>. The document is created and packed before any header
  is set; when the packer rejects, the handler's \<open>catch\<close> answers 500.
\<close>

definition downloadResume :: "'j env \<Rightarrow> downloadBody \<Rightarrow> 'j response" where
  "downloadResume env req =
     (case (rewrittenResumeField req, format req) of
        (Some r, Some fmt) \<Rightarrow>
          if fmt = [] then failure 400 (lit ''Missing resume data or format'') None
          else if fmt = lit ''txt'' then
            \<lparr>status = 200,
             headers = [(lit ''Content-Type'', lit ''text/plain''),
                        (lit ''Content-Disposition'',
                         lit ''attachment; filename='' @ [34] @ lit ''resume.txt'' @ [34])],
             body = SendText (plainText r)\<rparr>
          else if fmt = lit ''docx'' \<or> fmt = lit ''doc'' then
            (case library (toBuffer env (resumeDocument (dateNow env) r)) of
               Inl err \<Rightarrow> failure 500 (lit ''Download failed'') (message err)
             | Inr buffer \<Rightarrow>
                 \<lparr>status = 200,
                  headers = [(lit ''Content-Type'', docxMime),
                             (lit ''Content-Disposition'',
                              lit ''attachment; filename='' @ [34] @ lit ''resume.'' @ fmt @
                              [34])],
                  body = SendBuffer buffer\<rparr>)
          else if fmt = lit ''pdf'' then
            \<lparr>status = 200, headers = [], body = PlainTextJson (plainText r)\<rparr>
          else failure 400 (lit ''Unsupported format'') None
      | _ \<Rightarrow> failure 400 (lit ''Missing resume data or format'') None)"
section \<open>Notions used to state the properties\<close>

text \<open>
  The positions at which a non-empty separator occurs in a string, in increasing order.
\<close>

definition occurrences :: "jsstring \<Rightarrow> jsstring \<Rightarrow> nat list" where
  "occurrences sep s = filter (\<lambda>i. prefix sep (drop i s)) [0..<length s]"

definition base64Marker :: jsstring where
  "base64Marker = lit ''base64,''"

text \<open>
  The content of a text with its layout erased: its lines, each without the white
  space around it, blank lines left out.
\<close>

fun linesOf :: "jsstring \<Rightarrow> jsstring list" where
  "linesOf [] = [[]]"
| "linesOf (c # s) =
     (if c = 10 then [] # linesOf s
      else (case linesOf s of [] \<Rightarrow> [[c]] | l # ls \<Rightarrow> (c # l) # ls))"

definition contentLines :: "jsstring \<Rightarrow> jsstring list" where
  "contentLines s = filter (\<lambda>l. l \<noteq> []) (map trim (linesOf s))"

text \<open>
  The content of a document with its markup erased: the text of its paragraphs in
  order (heading levels and bold forgotten), read as content lines.
\<close>

definition paragraphText :: "Paragraph \<Rightarrow> jsstring" where
  "paragraphText p =
     (case ptext p of None \<Rightarrow> [] | Some t \<Rightarrow> t) @ concat (map runText (runs p))"

definition docContent :: "Paragraph list \<Rightarrow> jsstring list" where
  "docContent ps = concat (map (\<lambda>p. contentLines (paragraphText p)) ps)"

text \<open>
  The layout both renderings follow, with the two places where they part left open:
  the lines that head an experience entry, and whether the CERTIFICATIONS label is
  printed when there is no certification.
\<close>

definition sectionLines ::
  "(experience \<Rightarrow> jsstring list) \<Rightarrow> bool \<Rightarrow> rewrittenResume \<Rightarrow> jsstring list" where
  "sectionLines entryHeading labelWhenEmpty r =
     contentLines (name r) @ contentLines (contactLine r) @
     [lit ''PROFESSIONAL SUMMARY''] @ contentLines (summary r) @
     [lit ''EXPERIENCE''] @
     concat (map (\<lambda>e. entryHeading e @
                       concat (map (\<lambda>b. contentLines (bulletLine b)) (bullets e)))
               (experiences r)) @
     [lit ''EDUCATION''] @
     concat (map (\<lambda>e. contentLines (educationLine e)) (educations r)) @
     [lit ''SKILLS''] @ contentLines (skillsLine r) @
     (if certificationsOrEmpty r = [] \<and> \<not> labelWhenEmpty then []
      else lit ''CERTIFICATIONS'' # concat (map contentLines (certificationsOrEmpty r)))"

definition plainEntryHeading :: "experience \<Rightarrow> jsstring list" where
  "plainEntryHeading e = contentLines (experienceHeading e)"

definition docEntryHeading :: "experience \<Rightarrow> jsstring list" where
  "docEntryHeading e =
     contentLines (title e @ emDash @ company e) @ contentLines (duration e)"

text \<open>
  What the plain-text template prints of a resume: the fields it interpolates, in
  order, and the labels it writes between them. A probe string is free of separators
  when it holds none of the units that the template writes between or around fields
  (line feed, bar, em dash, parentheses, comma, bullet) and neither begins nor ends
  with a space.
\<close>

definition renderedFields :: "rewrittenResume \<Rightarrow> jsstring list" where
  "renderedFields r =
     [name r, email r, phone r, location r, summary r] @
     concat (map (\<lambda>e. [title e, company e, duration e] @ bullets e) (experiences r)) @
     concat (map (\<lambda>e. [degree e, institution e, eduDuration e]) (educations r)) @
     skills r @ certificationsOrEmpty r"

definition sectionLabels :: "jsstring list" where
  "sectionLabels =
     [lit ''PROFESSIONAL SUMMARY'', lit ''EXPERIENCE'', lit ''EDUCATION'', lit ''SKILLS'',
      lit ''CERTIFICATIONS'']"

definition separatorUnits :: "nat list" where
  "separatorUnits = [10, 124, 8212, 40, 41, 44, 8226]"

definition separatorFree :: "jsstring \<Rightarrow> bool" where
  "separatorFree p =
     (p \<noteq> [] \<and> hd p \<noteq> 32 \<and> last p \<noteq> 32 \<and> list_all (\<lambda>c. c \<notin> set separatorUnits) p)"

section \<open>Sample inputs\<close>

text \<open>
  A resume whose references are withheld, and a world in which file-type recognises
  a PDF by its \<open>%PDF\<close> signature and nothing else, pdfjs cannot load fonts for one
  PDF and rejects every other unless told to use system fonts, UTF-8 decoding is
  read off byte by byte (which is what it does on ASCII bytes), base64 decoding
  knows the encodings of \<open>hi\<close> and of a space followed by a line feed, and the packer
  writes a package whose bytes tell the creation time of the document.
\<close>

definition sampleResume :: rewrittenResume where
  "sampleResume =
     \<lparr>name = lit ''Ada Lovelace'', email = lit ''ada@example.org'', phone = lit ''555-0100'',
      location = lit ''London'', summary = lit ''Analyst and programmer.'',
      experiences =
        [\<lparr>title = lit ''Analyst'', company = lit ''Analytical Engines'',
          duration = lit ''1842-1843'',
          bullets = [lit ''Wrote notes'', lit ''Computed numbers'']\<rparr>],
      educations =
        [\<lparr>degree = lit ''Mathematics'', institution = lit ''Private study'',
          eduDuration = lit ''1832-1835''\<rparr>],
      skills = [lit ''Analysis'', lit ''Programming''],
      certifications = Some [],
      references = [Phrase (lit ''Available upon request'')]\<rparr>"

definition pdfSignature :: buffer where
  "pdfSignature = [37, 80, 68, 70]"

definition sampleEnv :: "unit env" where
  "sampleEnv =
     \<lparr>fileTypeFromBuffer =
        (\<lambda>b. if take 4 b = pdfSignature then Some (lit ''application/pdf'') else None),
      getDocument =
        (\<lambda>opts b.
           if useSystemFonts opts then Inr [Inr [lit ''Hello'', lit ''World'']]
           else if b = pdfSignature @ [45] then Inl (Some (lit ''Unable to load font data''))
           else Inl (Some (lit ''Invalid PDF structure.''))),
      extractRawText = (\<lambda>b. Inl None),
      toStringUtf8 = map unat,
      fromBase64 =
        (\<lambda>s. if s = lit ''aGk='' then [104, 105]
             else if s = lit ''IAo='' then [32, 10] else []),
      generateContent = (\<lambda>p. Inl None),
      jsonParse = (\<lambda>s. Inl None),
      toLocaleDateString = lit ''January 5, 2025'',
      standardFontsDir = lit ''/app/node_modules/pdfjs-dist/standard_fonts/'',
      dateNow = 1762085820000,
      toBuffer = (\<lambda>d. Inr ([80, 75] @ (if created d = 1762085820000 then [0] else [1])))\<rparr>"

text \<open>The same world one second later.\<close>

definition sampleEnvLater :: "unit env" where
  "sampleEnvLater = sampleEnv\<lparr>dateNow := 1762085821000\<rparr>"

section \<open>Properties\<close>

subsection \<open>Evaluating the sample inputs\<close>

lemmas string_eval =
  lit_def NL_def emDash_def bulletLine_def trim_def trimStart_def trimEnd_def isWhiteSpace_def

lemmas render_eval =
  plainText_def plainTextTemplate_def contactLine_def experienceHeading_def experienceBlock_def
  educationLine_def
  skillsLine_def certificationsOrEmpty_def

lemma base64Data_aGk: "base64Data (lit ''aGk='') = Some (lit ''aGk='')"
  by (simp add: base64Data_def lit_def)

lemma base64Data_IAo: "base64Data (lit ''IAo='') = Some (lit ''IAo='')"
  by (simp add: base64Data_def lit_def)

lemma extractText_hi:
  "extractText sampleEnv [104, 105] None = ([Txt], Inr (lit ''hi''))"
  by (simp add: extractText_def detectMime_def sampleEnv_def pdfSignature_def
      extractTextFromTxt_def string_eval)

lemma extractText_blank:
  "extractText sampleEnv [32, 10] None = ([Txt], Inl unsupportedFileType)"
  by (simp add: extractText_def detectMime_def sampleEnv_def pdfSignature_def
      extractTextFromTxt_def string_eval)

lemma fromBase64_sample:
  "fromBase64 sampleEnv (lit ''aGk='') = [104, 105]"
  "fromBase64 sampleEnv (lit ''IAo='') = [32, 10]"
  by (simp_all add: sampleEnv_def lit_def)

subsection \<open>Who throws what\<close>

text \<open>
  The extractors throw library errors only; the one \<open>Error\<close> the dispatcher makes
  itself is the unsupported-file-type error.
\<close>

lemma readPages_not_Error: "readPages pages acc \<noteq> Inl (Error m)"
  by (induction pages acc rule: readPages.induct) simp_all

lemma extractTextFromPDF_not_Error: "extractTextFromPDF env buffer \<noteq> Inl (Error m)"
  by (simp add: extractTextFromPDF_def readPages_not_Error split: sum.split)

lemma extractTextFromPDFFallback_not_Error:
  "extractTextFromPDFFallback env buffer \<noteq> Inl (Error m)"
  by (simp add: extractTextFromPDFFallback_def readPages_not_Error split: sum.split)

lemma library_not_Error: "library r \<noteq> Inl (Error m)"
  by (simp add: library_def split: sum.split)

lemma unsupported_iff:
  "snd (extractText env buffer hint) = Inl unsupportedFileType \<longleftrightarrow>
     detectMime env buffer hint \<noteq> lit ''application/pdf'' \<and>
     detectMime env buffer hint \<noteq>
       lit ''application/vnd.openxmlformats-officedocument.wordprocessingml.document'' \<and>
     detectMime env buffer hint \<noteq> lit ''application/msword'' \<and>
     trim (toStringUtf8 env buffer) = []"
  by (auto simp: extractText_def Let_def unsupportedFileType_def extractTextFromDocx_def
      extractTextFromTxt_def extractTextFromPDF_not_Error extractTextFromPDFFallback_not_Error
      library_not_Error split: sum.splits)

subsection \<open>Substrings, trimming and fence stripping\<close>

declare stripFences.simps [simp del]

lemma includesStr_sublist: "includesStr s sub \<longleftrightarrow> sublist sub s"
  by (induction s) (auto simp: sublist_Cons_right)

lemma prefix_trimEnd: "prefix (trimEnd t) t"
  using suffix_dropWhile [of isWhiteSpace "rev t"]
  by (simp add: trimEnd_def suffix_to_prefix)

lemma trimEnd_idem: "trimEnd (trimEnd t) = trimEnd t"
  by (simp add: trimEnd_def)

lemma sublist_trim: "sublist (trim s) s"
proof -
  have "suffix (dropWhile isWhiteSpace s) s"
    by (rule suffix_dropWhile)
  then show ?thesis
    unfolding trim_def trimStart_def
    by (meson prefix_trimEnd prefix_imp_sublist suffix_imp_sublist
        sublist_order.order_trans)
qed

lemma trimStart_trim: "trimStart (trim s) = trim s"
proof -
  define u where "u = dropWhile isWhiteSpace s"
  define v where "v = trimEnd u"
  have "v = [] \<or> \<not> isWhiteSpace (hd v)"
  proof (cases "v = []")
    case True
    then show ?thesis by simp
  next
    case False
    have pv: "prefix v u"
      unfolding v_def by (rule prefix_trimEnd)
    with False have "u \<noteq> []" and "hd v = hd u"
      by (auto simp: prefix_def)
    moreover from \<open>u \<noteq> []\<close> have "\<not> isWhiteSpace (hd u)"
      unfolding u_def by (rule hd_dropWhile)
    ultimately show ?thesis by simp
  qed
  then have "dropWhile isWhiteSpace v = v"
    by (simp add: dropWhile_eq_self_iff)
  then show ?thesis
    by (simp add: trim_def trimStart_def v_def u_def)
qed

lemma trim_idem: "trim (trim s) = trim s"
proof -
  have "trim (trim s) = trimEnd (trim s)"
    by (subst trim_def) (simp add: trimStart_trim)
  also have "\<dots> = trim s"
    by (simp add: trim_def trimEnd_idem)
  finally show ?thesis .
qed

lemma stripFences_Nil: "stripFences [] = []"
  by (simp add: stripFences.simps)

lemma stripFences_keep:
  "\<not> prefix fence (c # s) \<Longrightarrow> stripFences (c # s) = c # stripFences s"
  by (subst stripFences.simps) (auto simp: prefix_def)

text \<open>What is kept in front of a backtick-free start is backtick-free at its start.\<close>

lemma stripFences_no_leading_backtick:
  "s = [] \<or> hd s \<noteq> 96 \<Longrightarrow> stripFences s = [] \<or> hd (stripFences s) \<noteq> 96"
  by (subst stripFences.simps, subst (2) stripFences.simps) (auto simp: fence_def prefix_def)

text \<open>
  Removing the matches cannot bring three backticks together: a kept backtick is never
  directly followed by a match, since the match would have started one unit earlier.
\<close>

lemma stripFences_no_fence: "\<not> sublist fence (stripFences s)"
proof (induction s rule: stripFences.induct)
  case (1 s)
  show ?case
  proof (cases "s = []")
    case True
    then show ?thesis by (simp add: stripFences_Nil fence_def)
  next
    case ne: False
    show ?thesis
    proof (cases "prefix (fence @ lit ''json'') s")
      case True
      with ne 1 show ?thesis by (subst stripFences.simps) simp
    next
      case nj: False
      show ?thesis
      proof (cases "prefix fence s")
        case True
        with ne nj 1 show ?thesis by (subst stripFences.simps) simp
      next
        case nf: False
        from ne obtain c t where s: "s = c # t" by (cases s) auto
        have ih: "\<not> sublist fence (stripFences t)"
          using 1(3) ne nj nf s by simp
        have eq: "stripFences s = c # stripFences t"
          using nf s by (simp add: stripFences_keep)
        have "\<not> prefix fence (c # stripFences t)"
        proof
          assume p: "prefix fence (c # stripFences t)"
          then have c: "c = 96" and p2: "prefix [96, 96] (stripFences t)"
            by (simp_all add: fence_def)
          from nf s c have nt: "\<not> prefix [96, 96] t"
            by (simp add: fence_def)
          show False
          proof (cases t)
            case Nil
            with p2 show False by (simp add: stripFences_Nil)
          next
            case (Cons d u)
            show False
            proof (cases "d = 96")
              case False
              with Cons stripFences_no_leading_backtick [of t] p2 show False
                by (auto simp: prefix_def)
            next
              case True
              with nt Cons have u: "u = [] \<or> hd u \<noteq> 96"
                by (cases u) auto
              with True Cons have "stripFences t = 96 # stripFences u"
                by (cases u) (auto simp: stripFences_keep fence_def)
              with p2 stripFences_no_leading_backtick [OF u] show False
                by (auto simp: prefix_def)
            qed
          qed
        qed
        with ih eq show ?thesis by (simp add: sublist_Cons_right)
      qed
    qed
  qed
qed

lemma stripFences_id: "\<not> sublist fence s \<Longrightarrow> stripFences s = s"
proof (induction s)
  case Nil
  then show ?case by (simp add: stripFences_Nil)
next
  case (Cons c s)
  then show ?case
    by (simp add: sublist_Cons_right stripFences_keep)
qed

lemma stripFences_fence_json:
  "96 \<notin> set a \<Longrightarrow> stripFences (a @ fence @ lit ''json'' @ b) = a @ stripFences b"
proof (induction a)
  case Nil
  show ?case
    by (subst stripFences.simps) (simp add: fence_def lit_def)
next
  case (Cons c a)
  then show ?case
    by (simp add: stripFences_keep fence_def)
qed

lemma stripFences_fence_plain:
  "96 \<notin> set a \<Longrightarrow> \<not> prefix (lit ''json'') b \<Longrightarrow>
   stripFences (a @ fence @ b) = a @ stripFences b"
proof (induction a)
  case Nil
  then show ?case
    by (subst stripFences.simps) (simp add: fence_def)
next
  case (Cons c a)
  then show ?case
    by (simp add: stripFences_keep fence_def)
qed

subsection \<open>Splitting at a separator\<close>

declare splitFrom.simps [simp del]

lemma splitFrom_Nil: "sep \<noteq> [] \<Longrightarrow> splitFrom sep acc [] = [acc]"
  by (simp add: splitFrom.simps)

lemma splitFrom_match:
  "sep \<noteq> [] \<Longrightarrow> prefix sep s \<Longrightarrow>
   splitFrom sep acc s = acc # splitFrom sep [] (drop (length sep) s)"
  by (subst splitFrom.simps) (auto simp: prefix_def)

lemma splitFrom_step:
  "sep \<noteq> [] \<Longrightarrow> \<not> prefix sep (c # s) \<Longrightarrow>
   splitFrom sep acc (c # s) = splitFrom sep (acc @ [c]) s"
  by (subst splitFrom.simps) simp

text \<open>Units in front of the first occurrence go to the piece being collected.\<close>

lemma splitFrom_skip:
  "sep \<noteq> [] \<Longrightarrow> n \<le> length s \<Longrightarrow> \<forall>k<n. \<not> prefix sep (drop k s) \<Longrightarrow>
   splitFrom sep acc s = splitFrom sep (acc @ take n s) (drop n s)"
proof (induction n arbitrary: acc s)
  case 0
  then show ?case by simp
next
  case (Suc n)
  from Suc.prems obtain c t where s: "s = c # t"
    by (cases s) auto
  from Suc.prems(3) have "\<not> prefix sep (drop 0 s)"
    by blast
  then have np: "\<not> prefix sep (c # t)"
    using s by simp
  have later: "\<forall>k<n. \<not> prefix sep (drop k t)"
  proof (intro allI impI)
    fix k assume "k < n"
    then have "\<not> prefix sep (drop (Suc k) s)"
      using Suc.prems(3) by auto
    then show "\<not> prefix sep (drop k t)"
      using s by simp
  qed
  have "splitFrom sep acc s = splitFrom sep (acc @ [c]) t"
    using Suc.prems(1) np s by (simp add: splitFrom_step)
  also have "\<dots> = splitFrom sep ((acc @ [c]) @ take n t) (drop n t)"
    using Suc.prems s later by (intro Suc.IH) auto
  finally show ?case
    using s by simp
qed

lemma split_first:
  assumes "sep \<noteq> []" and "prefix sep (drop i x)" and "\<forall>k<i. \<not> prefix sep (drop k x)"
  shows "splitFrom sep [] x = take i x # splitFrom sep [] (drop (i + length sep) x)"
proof -
  have i: "i \<le> length x"
    using assms(1,2) by (cases "i \<le> length x") auto
  have "splitFrom sep [] x = splitFrom sep ([] @ take i x) (drop i x)"
    using assms(1) i assms(3) by (rule splitFrom_skip)
  also have "\<dots> = take i x # splitFrom sep [] (drop (length sep) (drop i x))"
    using assms(1,2) by (simp add: splitFrom_match)
  finally show ?thesis
    by (simp add: add.commute)
qed

lemma split_none:
  assumes "sep \<noteq> []" and "\<forall>k. \<not> prefix sep (drop k x)"
  shows "splitFrom sep [] x = [x]"
proof -
  have "splitFrom sep [] x = splitFrom sep ([] @ take (length x) x) (drop (length x) x)"
    using assms by (intro splitFrom_skip) auto
  then show ?thesis
    using assms(1) by (simp add: splitFrom_Nil)
qed

text \<open>The first element kept by a filter over an interval, and what follows it.\<close>

lemma filter_upt_Cons:
  "filter P [a..<b] = i # rest \<Longrightarrow>
   a \<le> i \<and> i < b \<and> P i \<and> (\<forall>k. a \<le> k \<and> k < i \<longrightarrow> \<not> P k) \<and>
   rest = filter P [Suc i..<b]"
proof (induction "b - a" arbitrary: a)
  case 0
  then show ?case by simp
next
  case (Suc n)
  then have ab: "a < b" by simp
  then have upt: "[a..<b] = a # [Suc a..<b]"
    by (simp add: upt_rec)
  show ?case
  proof (cases "P a")
    case True
    with Suc.prems upt show ?thesis
      using ab by auto
  next
    case False
    with Suc.prems upt have f: "filter P [Suc a..<b] = i # rest"
      by simp
    have "n = b - Suc a"
      using Suc.hyps(2) by simp
    from Suc.hyps(1) [OF this f]
    have ih: "Suc a \<le> i" "i < b" "P i" "\<forall>k. Suc a \<le> k \<and> k < i \<longrightarrow> \<not> P k"
      "rest = filter P [Suc i..<b]"
      by simp_all
    have "\<not> P k" if "a \<le> k \<and> k < i" for k
    proof (cases "k = a")
      case True
      with False show ?thesis by simp
    next
      case ne: False
      with that have "Suc a \<le> k \<and> k < i" by simp
      with ih(4) show ?thesis by blast
    qed
    with ih show ?thesis by simp
  qed
qed

lemma includesStr_occurrences:
  "sep \<noteq> [] \<Longrightarrow> includesStr x sep \<longleftrightarrow> occurrences sep x \<noteq> []"
proof -
  assume ne: "sep \<noteq> []"
  have "sublist sep x \<longleftrightarrow> (\<exists>i. prefix sep (drop i x))"
    by (metis sublist_altdef' suffix_drop suffix_def append_eq_conv_conj)
  also have "\<dots> \<longleftrightarrow> (\<exists>i < length x. prefix sep (drop i x))"
  proof
    assume "\<exists>i. prefix sep (drop i x)"
    then obtain i where i: "prefix sep (drop i x)" ..
    with ne have "i < length x"
      by (cases "i < length x") auto
    with i show "\<exists>i < length x. prefix sep (drop i x)" by blast
  qed blast
  also have "\<dots> \<longleftrightarrow> occurrences sep x \<noteq> []"
    by (auto simp: occurrences_def filter_empty_conv)
  finally show ?thesis
    by (simp add: includesStr_sublist)
qed

text \<open>
  The marker \<open>base64,\<close> begins with the only \<open>b\<close> it contains, so two occurrences of
  it cannot overlap.
\<close>

lemma base64Marker_ne: "base64Marker \<noteq> []"
  by (simp add: base64Marker_def lit_def)

lemma base64Marker_length: "length base64Marker = 7"
  by (simp add: base64Marker_def lit_def)

lemma base64Marker_nth:
  assumes "prefix base64Marker (drop i x)" and "d < 7"
  shows "x ! (i + d) = base64Marker ! d"
proof -
  from assms(1) obtain zs where z: "drop i x = base64Marker @ zs"
    by (auto simp: prefix_def)
  then have "i \<le> length x"
    using base64Marker_length by (cases "i \<le> length x") auto
  then have "x ! (i + d) = drop i x ! d"
    by simp
  also have "\<dots> = base64Marker ! d"
    using z assms(2) base64Marker_length by (simp add: nth_append)
  finally show ?thesis .
qed

lemma base64Marker_no_overlap:
  assumes "prefix base64Marker (drop i x)" and "prefix base64Marker (drop j x)" and "i < j"
  shows "i + 7 \<le> j"
proof (rule ccontr)
  assume "\<not> i + 7 \<le> j"
  with assms(3) obtain d where d: "j = i + d" "0 < d" "d < 7"
    by (metis add.commute less_diff_conv2 less_imp_le_nat not_le zero_less_diff
        le_add_diff_inverse)
  have "x ! (i + d) = base64Marker ! d"
    using assms(1) d(3) by (rule base64Marker_nth)
  moreover have "x ! (j + 0) = base64Marker ! 0"
    using assms(2) by (rule base64Marker_nth) simp
  ultimately have "base64Marker ! d = base64Marker ! 0"
    using d(1) by simp
  moreover have "d \<in> {1, 2, 3, 4, 5, 6}"
    using d by auto
  ultimately show False
    by (auto simp: base64Marker_def lit_def)
qed

subsection \<open>Content lines\<close>

lemma linesOf_ne: "linesOf s \<noteq> []"
  by (cases s) (simp_all split: list.split)

lemma linesOf_append_NL: "linesOf (a @ 10 # b) = linesOf a @ linesOf b"
proof (induction a)
  case Nil
  then show ?case by simp
next
  case (Cons c a)
  then show ?case
    using linesOf_ne [of a] by (cases "linesOf a") simp_all
qed

lemma linesOf_snoc:
  "c \<noteq> 10 \<Longrightarrow> linesOf (a @ [c]) = butlast (linesOf a) @ [last (linesOf a) @ [c]]"
proof (induction a)
  case Nil
  then show ?case by simp
next
  case (Cons d a)
  obtain l ls where l: "linesOf a = l # ls"
    using linesOf_ne [of a] by (cases "linesOf a") auto
  with Cons show ?case
    by (cases ls rule: rev_cases) (auto simp: butlast_append)
qed

lemma contentLines_Nil: "contentLines [] = []"
  by (simp add: contentLines_def trim_def trimStart_def trimEnd_def)

lemma contentLines_append_NL:
  "contentLines (a @ NL @ b) = contentLines a @ contentLines b"
  by (simp add: contentLines_def NL_def linesOf_append_NL)

lemma contentLines_NL: "contentLines (NL @ b) = contentLines b"
  using contentLines_append_NL [of "[]" b] by (simp add: contentLines_Nil)

lemma contentLines_snoc_NL: "contentLines (a @ NL) = contentLines a"
  using contentLines_append_NL [of a "[]"] by (simp add: contentLines_Nil)

lemma contentLines_join: "contentLines (join NL xs) = concat (map contentLines xs)"
  by (induction NL xs rule: join.induct)
    (simp_all add: contentLines_append_NL contentLines_Nil)

text \<open>White space at either end of a text does not change its content lines.\<close>

lemma trim_Cons_ws: "isWhiteSpace c \<Longrightarrow> trim (c # l) = trim l"
  by (simp add: trim_def trimStart_def)

lemma trim_snoc_ws: "isWhiteSpace c \<Longrightarrow> trim (l @ [c]) = trim l"
proof (cases "\<forall>x\<in>set l. isWhiteSpace x")
  case True
  assume "isWhiteSpace c"
  with True have "\<forall>x\<in>set (l @ [c]). isWhiteSpace x"
    by simp
  then have "dropWhile isWhiteSpace (l @ [c]) = []"
    by (simp only: dropWhile_eq_Nil_conv)
  moreover from True have "dropWhile isWhiteSpace l = []"
    by (simp only: dropWhile_eq_Nil_conv)
  ultimately show ?thesis
    by (simp only: trim_def trimStart_def trimEnd_def)
next
  case False
  assume c: "isWhiteSpace c"
  from False have "dropWhile isWhiteSpace (l @ [c]) = dropWhile isWhiteSpace l @ [c]"
    by (auto simp: dropWhile_append1)
  with c show ?thesis
    by (simp add: trim_def trimStart_def trimEnd_def)
qed

lemma contentLines_Cons_ws: "isWhiteSpace c \<Longrightarrow> contentLines (c # s) = contentLines s"
proof (cases "c = 10")
  case True
  then show ?thesis
    by (simp add: contentLines_def trim_def trimStart_def trimEnd_def)
next
  case False
  assume c: "isWhiteSpace c"
  obtain l ls where l: "linesOf s = l # ls"
    using linesOf_ne [of s] by (cases "linesOf s") auto
  with False c show ?thesis
    by (simp add: contentLines_def trim_Cons_ws)
qed

lemma contentLines_snoc_ws: "isWhiteSpace c \<Longrightarrow> contentLines (s @ [c]) = contentLines s"
proof (cases "c = 10")
  case True
  then show ?thesis
    using linesOf_append_NL [of s "[]"]
    by (simp add: contentLines_def trim_def trimStart_def trimEnd_def)
next
  case False
  assume c: "isWhiteSpace c"
  obtain ls l where l: "linesOf s = ls @ [l]"
    using linesOf_ne [of s] by (cases "linesOf s" rule: rev_cases) auto
  with False c show ?thesis
    by (simp add: contentLines_def linesOf_snoc trim_snoc_ws)
qed

lemma contentLines_dropWhile: "contentLines (dropWhile isWhiteSpace s) = contentLines s"
  by (induction s) (simp_all add: contentLines_Cons_ws)

lemma contentLines_append_ws:
  "\<forall>x\<in>set w. isWhiteSpace x \<Longrightarrow> contentLines (s @ w) = contentLines s"
proof (induction w arbitrary: s)
  case Nil
  then show ?case by simp
next
  case (Cons c w)
  have "contentLines (s @ c # w) = contentLines ((s @ [c]) @ w)"
    by simp
  also have "\<dots> = contentLines (s @ [c])"
    using Cons.prems by (intro Cons.IH) simp
  also have "\<dots> = contentLines s"
    using Cons.prems by (simp add: contentLines_snoc_ws)
  finally show ?case .
qed

lemma contentLines_trimEnd: "contentLines (trimEnd s) = contentLines s"
proof -
  have "rev s = takeWhile isWhiteSpace (rev s) @ dropWhile isWhiteSpace (rev s)"
    by simp
  then have "s = trimEnd s @ rev (takeWhile isWhiteSpace (rev s))"
    unfolding trimEnd_def by (metis rev_append rev_rev_ident)
  moreover have "\<forall>x\<in>set (rev (takeWhile isWhiteSpace (rev s))). isWhiteSpace x"
    by (auto dest: set_takeWhileD)
  ultimately show ?thesis
    using contentLines_append_ws by metis
qed

lemma contentLines_trim: "contentLines (trim s) = contentLines s"
  by (simp add: trim_def trimStart_def contentLines_trimEnd contentLines_dropWhile)

subsection \<open>The content of the two renderings\<close>

lemma contentLines_labels:
  "contentLines (lit ''PROFESSIONAL SUMMARY'') = [lit ''PROFESSIONAL SUMMARY'']"
  "contentLines (lit ''EXPERIENCE'') = [lit ''EXPERIENCE'']"
  "contentLines (lit ''EDUCATION'') = [lit ''EDUCATION'']"
  "contentLines (lit ''SKILLS'') = [lit ''SKILLS'']"
  "contentLines (lit ''CERTIFICATIONS'') = [lit ''CERTIFICATIONS'']"
  "contentLines (lit ''    '') = []"
  by (simp_all add: contentLines_def string_eval)

lemma contentLines_experienceBlock:
  "contentLines (experienceBlock e) =
     plainEntryHeading e @ concat (map (\<lambda>b. contentLines (bulletLine b)) (bullets e))"
  by (simp add: experienceBlock_def contentLines_NL contentLines_append_NL contentLines_join
      contentLines_snoc_NL plainEntryHeading_def comp_def)

lemma contentLines_plainText:
  "contentLines (plainText r) = sectionLines plainEntryHeading True r"
  by (simp add: plainText_def contentLines_trim plainTextTemplate_def contentLines_NL
      contentLines_append_NL contentLines_join contentLines_labels contentLines_Nil
      contentLines_experienceBlock sectionLines_def comp_def)

lemma paragraphText_simps:
  "paragraphText (textParagraph t) = t"
  "paragraphText (headingParagraph t h) = t"
  "paragraphText (runParagraph [\<lparr>runText = t, bold = b\<rparr>]) = t"
  by (simp_all add: paragraphText_def textParagraph_def headingParagraph_def runParagraph_def)

lemma docContent_append: "docContent (ps @ qs) = docContent ps @ docContent qs"
  by (simp add: docContent_def)

lemma docContent_Cons: "docContent (p # ps) = contentLines (paragraphText p) @ docContent ps"
  by (simp add: docContent_def)

lemma docContent_Nil: "docContent [] = []"
  by (simp add: docContent_def)

lemma docContent_map_text:
  "docContent (map (\<lambda>x. textParagraph (f x)) xs) = concat (map (\<lambda>x. contentLines (f x)) xs)"
  by (simp add: docContent_def comp_def paragraphText_simps)

lemma docContent_experience:
  "docContent (concat (map experienceParagraphs es)) =
     concat (map (\<lambda>e. docEntryHeading e @
                       concat (map (\<lambda>b. contentLines (bulletLine b)) (bullets e))) es)"
  by (induction es)
    (simp_all add: docContent_Nil docContent_append docContent_Cons experienceParagraphs_def
      paragraphText_simps docContent_map_text docEntryHeading_def contentLines_Nil)

lemma docContent_certifications:
  "docContent (certificationParagraphs r) =
     (if certificationsOrEmpty r = [] then []
      else lit ''CERTIFICATIONS'' # concat (map contentLines (certificationsOrEmpty r)))"
  using docContent_map_text [of "\<lambda>x. x"]
  by (simp add: certificationParagraphs_def certificationsOrEmpty_def docContent_Nil
      docContent_Cons paragraphText_simps contentLines_labels split: option.split)

lemma docContent_docChildren:
  "docContent (docChildren r) = sectionLines docEntryHeading False r"
  by (simp add: docChildren_def docContent_append docContent_Cons docContent_Nil
      paragraphText_simps docContent_map_text docContent_experience docContent_certifications
      contentLines_labels contentLines_Nil sectionLines_def)

lemma sampleResume_contents:
  "contentLines (plainText sampleResume) =
     [lit ''Ada Lovelace'', lit ''ada@example.org | 555-0100 | London'',
      lit ''PROFESSIONAL SUMMARY'', lit ''Analyst and programmer.'',
      lit ''EXPERIENCE'', lit ''Analyst'' @ emDash @ lit ''Analytical Engines (1842-1843)'',
      bulletLine (lit ''Wrote notes''), bulletLine (lit ''Computed numbers''),
      lit ''EDUCATION'', lit ''Mathematics'' @ emDash @ lit ''Private study (1832-1835)'',
      lit ''SKILLS'', lit ''Analysis, Programming'', lit ''CERTIFICATIONS''] \<and>
   docContent (docChildren sampleResume) =
     [lit ''Ada Lovelace'', lit ''ada@example.org | 555-0100 | London'',
      lit ''PROFESSIONAL SUMMARY'', lit ''Analyst and programmer.'',
      lit ''EXPERIENCE'', lit ''Analyst'' @ emDash @ lit ''Analytical Engines'',
      lit ''1842-1843'',
      bulletLine (lit ''Wrote notes''), bulletLine (lit ''Computed numbers''),
      lit ''EDUCATION'', lit ''Mathematics'' @ emDash @ lit ''Private study (1832-1835)'',
      lit ''SKILLS'', lit ''Analysis, Programming'']"
  by (simp add: sampleResume_def render_eval string_eval contentLines_def docContent_def
      docChildren_def paragraphText_def textParagraph_def headingParagraph_def runParagraph_def
      experienceParagraphs_def certificationParagraphs_def)

subsection \<open>What the plain-text template prints\<close>

text \<open>
  A string without separator units cannot straddle a separator of the template, so it
  lies within one of the pieces the template puts together.
\<close>

lemma prefix_before_unit:
  "prefix p (u @ c # v) \<Longrightarrow> c \<notin> set p \<Longrightarrow> prefix p u"
  by (auto simp: prefix_append prefix_Cons)

lemma sublist_split_unit:
  "c \<notin> set p \<Longrightarrow> sublist p (a @ c # b) \<Longrightarrow> sublist p a \<or> sublist p b"
proof (induction a)
  case Nil
  then show ?case
    by (cases p) (auto simp: sublist_Cons_right prefix_Cons)
next
  case (Cons x a)
  from Cons.prems(2) have "prefix p (x # a @ c # b) \<or> sublist p (a @ c # b)"
    by (simp add: sublist_Cons_right)
  then show ?case
  proof
    assume "prefix p (x # a @ c # b)"
    then have "prefix p ((x # a) @ c # b)" by simp
    then have "prefix p (x # a)"
      using Cons.prems(1) by (rule prefix_before_unit)
    then show ?thesis by (simp add: prefix_imp_sublist)
  next
    assume "sublist p (a @ c # b)"
    with Cons.IH Cons.prems(1) have "sublist p a \<or> sublist p b" by blast
    then show ?thesis by (auto simp: sublist_Cons_right)
  qed
qed

lemma sublist_drop_leading_space:
  "sublist p (32 # b) \<Longrightarrow> p \<noteq> [] \<Longrightarrow> hd p \<noteq> 32 \<Longrightarrow> sublist p b"
  by (cases p) (auto simp: sublist_Cons_right)

lemma sublist_drop_trailing_space:
  assumes "sublist p (a @ [32])" and "p \<noteq> []" and "last p \<noteq> 32"
  shows "sublist p a"
proof -
  from assms(1) have "sublist (rev p) (32 # rev a)"
    using sublist_rev [of p "a @ [32]"] by simp
  moreover have "rev p \<noteq> []" and "hd (rev p) \<noteq> 32"
    using assms(2,3) by (simp_all add: hd_rev)
  ultimately have "sublist (rev p) (rev a)"
    by (rule sublist_drop_leading_space)
  then show ?thesis
    by (simp add: sublist_rev)
qed


lemma separatorFree_facts:
  assumes "separatorFree p"
  shows "p \<noteq> []" "hd p \<noteq> 32" "last p \<noteq> 32"
    "10 \<notin> set p" "124 \<notin> set p" "8212 \<notin> set p" "40 \<notin> set p" "41 \<notin> set p"
    "44 \<notin> set p" "8226 \<notin> set p"
  using assms by (auto simp: separatorFree_def separatorUnits_def list_all_iff)

lemma not_sublist_Nil: "separatorFree p \<Longrightarrow> \<not> sublist p []"
  by (simp add: separatorFree_facts)

lemma sep_NL:
  "separatorFree p \<Longrightarrow> sublist p (a @ NL @ b) \<Longrightarrow> sublist p a \<or> sublist p b"
  using sublist_split_unit [of 10 p a b] by (simp add: NL_def separatorFree_facts)

lemma sep_bar:
  assumes "separatorFree p" and "sublist p (a @ lit '' | '' @ b)"
  shows "sublist p a \<or> sublist p b"
proof -
  note f = separatorFree_facts [OF assms(1)]
  from assms(2) have "sublist p ((a @ [32]) @ 124 # (32 # b))"
    by (simp add: lit_def)
  with f(5) have "sublist p (a @ [32]) \<or> sublist p (32 # b)"
    by (rule sublist_split_unit)
  then show ?thesis
    using f(1-3) by (auto dest: sublist_drop_trailing_space sublist_drop_leading_space)
qed

lemma sep_dash:
  assumes "separatorFree p" and "sublist p (a @ emDash @ b)"
  shows "sublist p a \<or> sublist p b"
proof -
  note f = separatorFree_facts [OF assms(1)]
  from assms(2) have "sublist p ((a @ [32]) @ 8212 # (32 # b))"
    by (simp add: emDash_def)
  with f(6) have "sublist p (a @ [32]) \<or> sublist p (32 # b)"
    by (rule sublist_split_unit)
  then show ?thesis
    using f(1-3) by (auto dest: sublist_drop_trailing_space sublist_drop_leading_space)
qed

lemma sep_open:
  assumes "separatorFree p" and "sublist p (a @ lit '' ('' @ b)"
  shows "sublist p a \<or> sublist p b"
proof -
  note f = separatorFree_facts [OF assms(1)]
  from assms(2) have "sublist p ((a @ [32]) @ 40 # b)"
    by (simp add: lit_def)
  with f(7) have "sublist p (a @ [32]) \<or> sublist p b"
    by (rule sublist_split_unit)
  then show ?thesis
    using f(1-3) by (auto dest: sublist_drop_trailing_space)
qed

lemma sep_close:
  assumes "separatorFree p" and "sublist p (a @ lit '')'')"
  shows "sublist p a"
proof -
  note f = separatorFree_facts [OF assms(1)]
  from assms(2) have "sublist p (a @ 41 # [])"
    by (simp add: lit_def)
  with f(8) have "sublist p a \<or> sublist p []"
    by (rule sublist_split_unit)
  then show ?thesis
    using f(1) by simp
qed

lemma sep_comma:
  assumes "separatorFree p" and "sublist p (a @ lit '', '' @ b)"
  shows "sublist p a \<or> sublist p b"
proof -
  note f = separatorFree_facts [OF assms(1)]
  from assms(2) have "sublist p (a @ 44 # (32 # b))"
    by (simp add: lit_def)
  with f(9) have "sublist p a \<or> sublist p (32 # b)"
    by (rule sublist_split_unit)
  then show ?thesis
    using f(1-3) by (auto dest: sublist_drop_leading_space)
qed

lemma sep_bullet:
  assumes "separatorFree p" and "sublist p (bulletLine b)"
  shows "sublist p b"
proof -
  note f = separatorFree_facts [OF assms(1)]
  from assms(2) have "sublist p ([] @ 8226 # (32 # b))"
    by (simp add: bulletLine_def)
  with f(10) have "sublist p [] \<or> sublist p (32 # b)"
    by (rule sublist_split_unit)
  then show ?thesis
    using f(1-3) by (auto dest: sublist_drop_leading_space)
qed

lemma sublist_join:
  assumes "\<And>a b. sublist p (a @ sep @ b) \<Longrightarrow> sublist p a \<or> sublist p b"
    and "p \<noteq> []"
  shows "sublist p (join sep xs) \<Longrightarrow> \<exists>x\<in>set xs. sublist p x"
proof (induction xs)
  case Nil
  with assms(2) show ?case by simp
next
  case (Cons x xs)
  show ?case
  proof (cases xs)
    case Nil
    with Cons.prems show ?thesis by simp
  next
    case (Cons y ys)
    with Cons.prems have "sublist p (x @ sep @ join sep xs)"
      by simp
    then have "sublist p x \<or> sublist p (join sep xs)"
      by (rule assms(1))
    with Cons.IH show ?thesis
      by auto
  qed
qed


lemma sep_NL_first: "separatorFree p \<Longrightarrow> sublist p (NL @ b) \<Longrightarrow> sublist p b"
  using sep_NL [of p "[]" b] by (auto simp: separatorFree_facts)

lemma sep_NL_last: "separatorFree p \<Longrightarrow> sublist p (a @ NL) \<Longrightarrow> sublist p a"
  using sep_NL [of p a "[]"] by (auto simp: separatorFree_facts)

lemma not_sublist_NL: "separatorFree p \<Longrightarrow> \<not> sublist p NL"
  using sep_NL_first [of p "[]"] by (auto simp: separatorFree_facts)

lemma not_sublist_spaces: "separatorFree p \<Longrightarrow> \<not> sublist p (lit ''    '')"
proof
  assume sf: "separatorFree p" and "sublist p (lit ''    '')"
  then have "set p \<subseteq> set (lit ''    '')"
    by (intro set_mono_sublist)
  then have "set p \<subseteq> {32}"
    by (simp add: lit_def)
  moreover have "hd p \<in> set p"
    using separatorFree_facts(1) [OF sf] by simp
  ultimately have "hd p = 32"
    by auto
  with separatorFree_facts(2) [OF sf] show False
    by simp
qed

lemma sublist_contactLine:
  assumes "separatorFree p" and "sublist p (contactLine r)"
  shows "sublist p (email r) \<or> sublist p (phone r) \<or> sublist p (location r)"
  using assms(2) unfolding contactLine_def
  by (auto dest!: sep_bar [OF assms(1)])

lemma sublist_experienceHeading:
  assumes "separatorFree p" and "sublist p (experienceHeading e)"
  shows "sublist p (title e) \<or> sublist p (company e) \<or> sublist p (duration e)"
  using assms(2) unfolding experienceHeading_def
  by (auto dest!: sep_dash [OF assms(1)] sep_open [OF assms(1)] sep_close [OF assms(1)])

lemma sublist_educationLine:
  assumes "separatorFree p" and "sublist p (educationLine e)"
  shows "sublist p (degree e) \<or> sublist p (institution e) \<or> sublist p (eduDuration e)"
  using assms(2) unfolding educationLine_def
  by (auto dest!: sep_dash [OF assms(1)] sep_open [OF assms(1)] sep_close [OF assms(1)])

lemma sublist_skillsLine:
  assumes "separatorFree p" and "sublist p (skillsLine r)"
  shows "\<exists>x\<in>set (skills r). sublist p x"
proof (rule sublist_join)
  show "sublist p a \<or> sublist p b" if "sublist p (a @ lit '', '' @ b)" for a b
    using assms(1) that by (rule sep_comma)
  show "p \<noteq> []"
    using assms(1) by (rule separatorFree_facts)
  show "sublist p (join (lit '', '') (skills r))"
    using assms(2) by (simp add: skillsLine_def)
qed

lemma sublist_join_NL:
  assumes "separatorFree p" and "sublist p (join NL xs)"
  shows "\<exists>x\<in>set xs. sublist p x"
proof (rule sublist_join)
  show "sublist p a \<or> sublist p b" if "sublist p (a @ NL @ b)" for a b
    using assms(1) that by (rule sep_NL)
  show "p \<noteq> []"
    using assms(1) by (rule separatorFree_facts)
  show "sublist p (join NL xs)"
    by (rule assms(2))
qed

lemma sublist_experienceBlock:
  assumes "separatorFree p" and "sublist p (experienceBlock e)"
  shows "\<exists>f\<in>set ([title e, company e, duration e] @ bullets e). sublist p f"
proof -
  have "experienceBlock e =
          join NL [[], experienceHeading e, join NL (map bulletLine (bullets e)), []]"
    by (simp add: experienceBlock_def)
  with assms(2) have "\<exists>x\<in>set [[], experienceHeading e,
      join NL (map bulletLine (bullets e)), []]. sublist p x"
    by (intro sublist_join_NL [OF assms(1)]) simp
  then have "sublist p (experienceHeading e) \<or>
      sublist p (join NL (map bulletLine (bullets e)))"
    using separatorFree_facts(1) [OF assms(1)] by auto
  then show ?thesis
  proof
    assume "sublist p (experienceHeading e)"
    from sublist_experienceHeading [OF assms(1) this] show ?thesis by auto
  next
    assume "sublist p (join NL (map bulletLine (bullets e)))"
    from sublist_join_NL [OF assms(1) this] obtain b where "b \<in> set (bullets e)"
      and "sublist p (bulletLine b)"
      by auto
    with sep_bullet [OF assms(1), of b] show ?thesis by auto
  qed
qed

lemma renderedFields_member:
  "name r \<in> set (renderedFields r)" "email r \<in> set (renderedFields r)"
  "phone r \<in> set (renderedFields r)" "location r \<in> set (renderedFields r)"
  "summary r \<in> set (renderedFields r)"
  "x \<in> set (skills r) \<Longrightarrow> x \<in> set (renderedFields r)"
  "x \<in> set (certificationsOrEmpty r) \<Longrightarrow> x \<in> set (renderedFields r)"
  by (simp_all add: renderedFields_def)

lemma concat_map_member:
  "e \<in> set es \<Longrightarrow> f \<in> set (g e) \<Longrightarrow> f \<in> set (concat (map g es))"
  by (induction es) auto

lemma renderedFields_experience:
  assumes "e \<in> set (experiences r)" and "f \<in> set ([title e, company e, duration e] @ bullets e)"
  shows "f \<in> set (renderedFields r)"
proof -
  have "f \<in> set (concat (map (\<lambda>e. [title e, company e, duration e] @ bullets e)
                              (experiences r)))"
    using assms by (rule concat_map_member)
  then show ?thesis
    unfolding renderedFields_def set_append by blast
qed

lemma renderedFields_education:
  assumes "e \<in> set (educations r)" and "f \<in> set [degree e, institution e, eduDuration e]"
  shows "f \<in> set (renderedFields r)"
proof -
  have "f \<in> set (concat (map (\<lambda>e. [degree e, institution e, eduDuration e])
                              (educations r)))"
    using assms by (rule concat_map_member)
  then show ?thesis
    unfolding renderedFields_def set_append by blast
qed

lemma plainTextTemplate_join:
  "plainTextTemplate r =
     join NL
       [[], name r, contactLine r, [],
        lit ''PROFESSIONAL SUMMARY'', summary r, [],
        lit ''EXPERIENCE'', join NL (map experienceBlock (experiences r)), [],
        lit ''EDUCATION'', join NL (map educationLine (educations r)), [],
        lit ''SKILLS'', skillsLine r, [],
        lit ''CERTIFICATIONS'', join NL (certificationsOrEmpty r), lit ''    '']"
  by (simp add: plainTextTemplate_def)


lemma sublist_plainTextTemplate:
  assumes "separatorFree p" and "sublist p (plainTextTemplate r)"
  shows "(\<exists>f\<in>set (renderedFields r). sublist p f) \<or> (\<exists>l\<in>set sectionLabels. sublist p l)"
proof -
  note sf = assms(1)
  note ne = separatorFree_facts(1) [OF sf]
  let ?pieces = "[[], name r, contactLine r, [],
        lit ''PROFESSIONAL SUMMARY'', summary r, [],
        lit ''EXPERIENCE'', join NL (map experienceBlock (experiences r)), [],
        lit ''EDUCATION'', join NL (map educationLine (educations r)), [],
        lit ''SKILLS'', skillsLine r, [],
        lit ''CERTIFICATIONS'', join NL (certificationsOrEmpty r), lit ''    '']"
  from assms(2) have "\<exists>x\<in>set ?pieces. sublist p x"
    unfolding plainTextTemplate_join by (rule sublist_join_NL [OF sf])
  then obtain x where x: "x \<in> set ?pieces" and sx: "sublist p x"
    by (rule bexE)
  from x have "x = [] \<or> x = lit ''    '' \<or> x \<in> set sectionLabels \<or> x = name r \<or>
      x = contactLine r \<or> x = summary r \<or>
      x = join NL (map experienceBlock (experiences r)) \<or>
      x = join NL (map educationLine (educations r)) \<or>
      x = skillsLine r \<or> x = join NL (certificationsOrEmpty r)"
    unfolding sectionLabels_def list.set insert_iff empty_iff by argo
  then consider
    "x = [] \<or> x = lit ''    ''" | "x \<in> set sectionLabels" | "x = name r"
    | "x = contactLine r" | "x = summary r"
    | "x = join NL (map experienceBlock (experiences r))"
    | "x = join NL (map educationLine (educations r))"
    | "x = skillsLine r" | "x = join NL (certificationsOrEmpty r)"
    by argo
  then show ?thesis
  proof cases
    case 1
    with sx ne not_sublist_spaces [OF sf] show ?thesis by auto
  next
    case 2
    with sx show ?thesis by blast
  next
    case 3
    with sx renderedFields_member(1) [of r] show ?thesis by blast
  next
    case 4
    with sx have "sublist p (contactLine r)" by simp
    from sublist_contactLine [OF sf this] renderedFields_member(2-4) [of r] show ?thesis
      by blast
  next
    case 5
    with sx renderedFields_member(5) [of r] show ?thesis by blast
  next
    case 6
    with sx have "sublist p (join NL (map experienceBlock (experiences r)))" by simp
    from sublist_join_NL [OF sf this] obtain e where e: "e \<in> set (experiences r)"
      and b: "sublist p (experienceBlock e)"
      by auto
    from sublist_experienceBlock [OF sf b] obtain f
      where "f \<in> set ([title e, company e, duration e] @ bullets e)" and f: "sublist p f"
      by (rule bexE)
    with e have "f \<in> set (renderedFields r)"
      by (intro renderedFields_experience)
    with f show ?thesis by blast
  next
    case 7
    with sx have "sublist p (join NL (map educationLine (educations r)))" by simp
    from sublist_join_NL [OF sf this] obtain e where e: "e \<in> set (educations r)"
      and l: "sublist p (educationLine e)"
      by auto
    from sublist_educationLine [OF sf l] obtain f
      where "f \<in> set [degree e, institution e, eduDuration e]" and f: "sublist p f"
      by auto
    with e have "f \<in> set (renderedFields r)"
      by (intro renderedFields_education)
    with f show ?thesis by blast
  next
    case 8
    with sx have "sublist p (skillsLine r)" by simp
    from sublist_skillsLine [OF sf this] renderedFields_member(6) [of _ r] show ?thesis
      by blast
  next
    case 9
    with sx have "sublist p (join NL (certificationsOrEmpty r))" by simp
    from sublist_join_NL [OF sf this] renderedFields_member(7) [of _ r] show ?thesis
      by blast
  qed
qed


lemma sublist_plainText:
  assumes "separatorFree p" and "includesStr (plainText r) p"
  shows "(\<exists>f\<in>set (renderedFields r). includesStr f p) \<or>
         (\<exists>l\<in>set sectionLabels. includesStr l p)"
proof -
  from assms(2) have "sublist p (trim (plainTextTemplate r))"
    by (simp add: includesStr_sublist plainText_def)
  then have "sublist p (plainTextTemplate r)"
    using sublist_trim [of "plainTextTemplate r"] by (rule sublist_order.order_trans)
  from sublist_plainTextTemplate [OF assms(1) this] show ?thesis
    by (simp add: includesStr_sublist)
qed

lemma phrase_separatorFree: "separatorFree (lit ''Available upon request'')"
  by (simp add: separatorFree_def separatorUnits_def lit_def)

lemma phrase_not_in_labels:
  "\<not> (\<exists>l\<in>set sectionLabels. includesStr l (lit ''Available upon request''))"
  by (simp add: sectionLabels_def lit_def)

subsection \<open>The plain-text rendering and the references\<close>

text \<open>
  C1, as stated, fails: the plain-text template has no references section, so the
  rendering of a resume whose references are \<open>["Available upon request"]\<close> does not
  contain the phrase. Here is such a resume.
\<close>

theorem withheld_references_not_rendered:
  "references sampleResume = [Phrase (lit ''Available upon request'')] \<and>
   \<not> includesStr (plainText sampleResume) (lit ''Available upon request'')"
  by (simp add: sampleResume_def render_eval string_eval)

text \<open>
  C1, amended. The plain-text rendering does not depend on the references field: a
  resume renders to the same text whatever its references are, and the references are
  not among the fields the template prints. Every string free of separators that occurs
  in the rendering occurs in one of the printed fields or in a section label. So
  nothing of a referee is printed unless a printed field carries it, and the phrase
  \<open>Available upon request\<close> occurs in the rendering only where a printed field
  carries it.
\<close>

theorem plainText_prints_rendered_fields_only:
  "plainText (r\<lparr>references := refs\<rparr>) = plainText r \<and>
   renderedFields (r\<lparr>references := refs\<rparr>) = renderedFields r \<and>
   (separatorFree p \<and> includesStr (plainText r) p \<longrightarrow>
      (\<exists>f\<in>set (renderedFields r). includesStr f p) \<or>
      (\<exists>l\<in>set sectionLabels. includesStr l p)) \<and>
   (includesStr (plainText r) (lit ''Available upon request'') \<longrightarrow>
      (\<exists>f\<in>set (renderedFields r). includesStr f (lit ''Available upon request'')))"
proof (intro conjI impI)
  show "plainText (r\<lparr>references := refs\<rparr>) = plainText r"
    by (simp add: plainText_def plainTextTemplate_def contactLine_def skillsLine_def
        certificationsOrEmpty_def)
  show "renderedFields (r\<lparr>references := refs\<rparr>) = renderedFields r"
    by (simp add: renderedFields_def certificationsOrEmpty_def)
  show "(\<exists>f\<in>set (renderedFields r). includesStr f p) \<or>
      (\<exists>l\<in>set sectionLabels. includesStr l p)"
    if "separatorFree p \<and> includesStr (plainText r) p"
    using that by (intro sublist_plainText) simp_all
  show "\<exists>f\<in>set (renderedFields r). includesStr f (lit ''Available upon request'')"
    if "includesStr (plainText r) (lit ''Available upon request'')"
    using sublist_plainText [OF phrase_separatorFree that] phrase_not_in_labels by blast
qed

theorem plainText_prints_rendered_fields_only_witness:
  "separatorFree (lit ''London'') \<and> includesStr (plainText sampleResume) (lit ''London'') \<and>
   ((\<exists>f\<in>set (renderedFields sampleResume). includesStr f (lit ''London'')) \<or>
    (\<exists>l\<in>set sectionLabels. includesStr l (lit ''London''))) \<and>
   includesStr
     (plainText (sampleResume\<lparr>summary := lit ''References: Available upon request''\<rparr>))
     (lit ''Available upon request'') \<and>
   (\<exists>f\<in>set (renderedFields
               (sampleResume\<lparr>summary := lit ''References: Available upon request''\<rparr>)).
      includesStr f (lit ''Available upon request''))"
proof -
  let ?r = "sampleResume\<lparr>summary := lit ''References: Available upon request''\<rparr>"
  have a: "separatorFree (lit ''London'')"
    by (simp add: separatorFree_def separatorUnits_def lit_def)
  have b: "includesStr (plainText sampleResume) (lit ''London'')"
    by (simp add: sampleResume_def render_eval string_eval)
  have c: "includesStr (plainText ?r) (lit ''Available upon request'')"
    by (simp add: sampleResume_def render_eval string_eval)
  have "(\<exists>f\<in>set (renderedFields sampleResume). includesStr f (lit ''London'')) \<or>
    (\<exists>l\<in>set sectionLabels. includesStr l (lit ''London''))"
    using plainText_prints_rendered_fields_only
            [where r = sampleResume and refs = "[]" and p = "lit ''London''"] a b by blast
  moreover have "\<exists>f\<in>set (renderedFields ?r). includesStr f (lit ''Available upon request'')"
    using plainText_prints_rendered_fields_only
            [where r = ?r and refs = "[]" and p = "lit ''London''"] c by blast
  ultimately show ?thesis
    using a b c by blast
qed

subsection \<open>Plain text against the document\<close>

text \<open>
  C2, as stated, fails. With the layout of the plain text and the markup of the document
  erased, the two renderings of the sample resume still differ: the plain text prints
  the CERTIFICATIONS label although the resume has no certification and the document
  does not, and the duration of the experience entry is part of the entry's heading
  line in the plain text and a paragraph of its own in the document.
\<close>

theorem renderings_of_sample_differ:
  "contentLines (plainText sampleResume) \<noteq> docContent (docChildren sampleResume) \<and>
   lit ''CERTIFICATIONS'' \<in> set (contentLines (plainText sampleResume)) \<and>
   lit ''CERTIFICATIONS'' \<notin> set (docContent (docChildren sampleResume))"
  using sampleResume_contents by (simp add: string_eval)

text \<open>
  C2, amended. Both renderings follow one layout: name, contact line, then the labels
  PROFESSIONAL SUMMARY, EXPERIENCE, EDUCATION and SKILLS, each followed by the same
  content lines in the same order, then the certifications. They part in two places
  only. An experience entry is headed by one line, title, dash, company and the duration in
  parentheses, in the plain text, and by title, dash and company followed by the bare
  duration in the document. The CERTIFICATIONS label is always printed in the plain text, and only
  when there is a certification in the document. A resume without experience entries
  and with a certification has the same content in both.
\<close>

theorem renderings_share_layout:
  "contentLines (plainText r) = sectionLines plainEntryHeading True r \<and>
   docContent (docChildren r) = sectionLines docEntryHeading False r \<and>
   (experiences r = [] \<and> certificationsOrEmpty r \<noteq> [] \<longrightarrow>
      contentLines (plainText r) = docContent (docChildren r))"
  by (simp add: contentLines_plainText docContent_docChildren sectionLines_def)

theorem renderings_share_layout_witness:
  "experiences (sampleResume\<lparr>experiences := [], certifications := Some [lit ''AWS'']\<rparr>) = [] \<and>
   certificationsOrEmpty
     (sampleResume\<lparr>experiences := [], certifications := Some [lit ''AWS'']\<rparr>) \<noteq> [] \<and>
   contentLines
     (plainText (sampleResume\<lparr>experiences := [], certifications := Some [lit ''AWS'']\<rparr>)) =
   docContent
     (docChildren (sampleResume\<lparr>experiences := [], certifications := Some [lit ''AWS'']\<rparr>))"
proof -
  let ?r = "sampleResume\<lparr>experiences := [], certifications := Some [lit ''AWS'']\<rparr>"
  have h: "experiences ?r = [] \<and> certificationsOrEmpty ?r \<noteq> []"
    by (simp add: certificationsOrEmpty_def)
  have "experiences ?r = [] \<and> certificationsOrEmpty ?r \<noteq> [] \<longrightarrow>
          contentLines (plainText ?r) = docContent (docChildren ?r)"
    using renderings_share_layout [of ?r] by (rule conjunct2 [THEN conjunct2])
  with h show ?thesis
    by blast
qed

subsection \<open>Short extracted text\<close>

text \<open>
  C3, as stated, fails: the dispatcher returns a text of two characters as a success.
  Its only own check is that a plain-text decoding does not trim to the empty string.
\<close>

theorem dispatcher_returns_short_text:
  "length (trim (lit ''hi'')) < 10 \<and>
   extractText sampleEnv [104, 105] None = ([Txt], Inr (lit ''hi''))"
  using extractText_hi by (simp add: string_eval)

text \<open>
  C3, amended. When the dispatcher returns a text whose trimmed length is below 10,
  it is the handlers that signal the failure: analyze-resume answers 500 with the
  details \<open>The file appears to be empty or image-based\<close>, and rewrite-resume answers
  500 with the details \<open>Could not extract enough text from the resume\<close>.
\<close>

theorem handlers_reject_short_text:
  assumes "payload \<noteq> []" and "base64Data payload = Some b64"
    and "snd (extractText env (fromBase64 env b64) mt) = Inr extracted"
    and "length (trim extracted) < 10"
  shows "analyzeResume env \<lparr>resumeText = Some payload, mimeType = mt\<rparr> =
           \<lparr>status = 500, headers = [],
            body = Failure (lit ''AI analysis failed'')
                     (Some (lit ''The file appears to be empty or image-based (e.g. a scanned PDF).''))\<rparr> \<and>
         rewriteResume env
           \<lparr>resumeFile = Some payload, rewriteMimeType = mt, critiqueField = Some c\<rparr> =
           \<lparr>status = 500, headers = [],
            body = Failure (lit ''Rewrite failed'')
                     (Some (lit ''Could not extract enough text from the resume.''))\<rparr>"
  using assms
  by (simp add: analyzeResume_def analyzeExtracted_def rewriteResume_def rewriteExtracted_def
      failure_def)

theorem handlers_reject_short_text_witness:
  "lit ''aGk='' \<noteq> [] \<and> base64Data (lit ''aGk='') = Some (lit ''aGk='') \<and>
   snd (extractText sampleEnv (fromBase64 sampleEnv (lit ''aGk='')) None) = Inr (lit ''hi'') \<and>
   length (trim (lit ''hi'')) < 10 \<and>
   status (analyzeResume sampleEnv \<lparr>resumeText = Some (lit ''aGk=''), mimeType = None\<rparr>) = 500 \<and>
   body (rewriteResume sampleEnv
           \<lparr>resumeFile = Some (lit ''aGk=''), rewriteMimeType = None,
            critiqueField = Some \<lparr>strengths = [], weaknesses = [], suggestions = [],
                                  overall = []\<rparr>\<rparr>) =
     Failure (lit ''Rewrite failed'')
       (Some (lit ''Could not extract enough text from the resume.''))"
proof -
  have p: "lit ''aGk='' \<noteq> []"
    by (simp add: lit_def)
  have x: "snd (extractText sampleEnv (fromBase64 sampleEnv (lit ''aGk='')) None) =
             Inr (lit ''hi'')"
    by (simp add: fromBase64_sample extractText_hi)
  have l: "length (trim (lit ''hi'')) < 10"
    by (simp add: string_eval)
  show ?thesis
    using handlers_reject_short_text [OF p base64Data_aGk x l] p base64Data_aGk x l
    by simp
qed

subsection \<open>The PDF font fallback\<close>

text \<open>
  C4. When the buffer is classified as a PDF and the primary extractor throws: if the
  error's message mentions \<open>standardFontDataUrl\<close> or \<open>font\<close>, the dispatcher invokes the
  fallback extractor after the primary one and returns whatever the fallback returns
  or throws; otherwise only the primary extractor was invoked and its error is thrown
  unchanged. The fallback loads the document with no standard-font directory,
  \<open>useSystemFonts\<close> and \<open>disableFontFace\<close>.
\<close>

theorem pdf_font_fallback:
  assumes "detectMime env buffer hint = lit ''application/pdf''"
    and "extractTextFromPDF env buffer = Inl err"
  shows "(fontRelated err \<longrightarrow>
            extractText env buffer hint =
              ([PDF, PDFFallback], extractTextFromPDFFallback env buffer)) \<and>
         (\<not> fontRelated err \<longrightarrow> extractText env buffer hint = ([PDF], Inl err)) \<and>
         extractTextFromPDFFallback env buffer =
           (case getDocument env
                   \<lparr>standardFontDataUrl = None, useSystemFonts = True,
                    disableFontFace = True\<rparr> buffer of
              Inl m \<Rightarrow> Inl (LibraryError m)
            | Inr pdfDoc \<Rightarrow> readPages pdfDoc [])"
  using assms by (simp add: extractText_def extractTextFromPDFFallback_def fallbackOptions_def)

theorem pdf_font_fallback_witness:
  "detectMime sampleEnv (pdfSignature @ [45]) None = lit ''application/pdf'' \<and>
   extractTextFromPDF sampleEnv (pdfSignature @ [45]) =
     Inl (LibraryError (Some (lit ''Unable to load font data''))) \<and>
   fontRelated (LibraryError (Some (lit ''Unable to load font data''))) \<and>
   extractText sampleEnv (pdfSignature @ [45]) None =
     ([PDF, PDFFallback], Inr (lit ''Hello World'' @ NL)) \<and>
   detectMime sampleEnv (pdfSignature @ [33]) None = lit ''application/pdf'' \<and>
   extractTextFromPDF sampleEnv (pdfSignature @ [33]) =
     Inl (LibraryError (Some (lit ''Invalid PDF structure.''))) \<and>
   \<not> fontRelated (LibraryError (Some (lit ''Invalid PDF structure.''))) \<and>
   extractText sampleEnv (pdfSignature @ [33]) None =
     ([PDF], Inl (LibraryError (Some (lit ''Invalid PDF structure.''))))"
proof -
  have m1: "detectMime sampleEnv (pdfSignature @ [45]) None = lit ''application/pdf''"
    by (simp add: detectMime_def sampleEnv_def pdfSignature_def lit_def)
  have e1: "extractTextFromPDF sampleEnv (pdfSignature @ [45]) =
              Inl (LibraryError (Some (lit ''Unable to load font data'')))"
    by (simp add: extractTextFromPDF_def sampleEnv_def primaryOptions_def)
  have f1: "fontRelated (LibraryError (Some (lit ''Unable to load font data'')))"
    by (simp add: fontRelated_def lit_def)
  have m2: "detectMime sampleEnv (pdfSignature @ [33]) None = lit ''application/pdf''"
    by (simp add: detectMime_def sampleEnv_def pdfSignature_def lit_def)
  have e2: "extractTextFromPDF sampleEnv (pdfSignature @ [33]) =
              Inl (LibraryError (Some (lit ''Invalid PDF structure.'')))"
    by (simp add: extractTextFromPDF_def sampleEnv_def primaryOptions_def pdfSignature_def)
  have f2: "\<not> fontRelated (LibraryError (Some (lit ''Invalid PDF structure.'')))"
    by (simp add: fontRelated_def lit_def)
  have fb: "extractTextFromPDFFallback sampleEnv (pdfSignature @ [45]) =
              Inr (lit ''Hello World'' @ NL)"
    by (simp add: extractTextFromPDFFallback_def fallbackOptions_def sampleEnv_def lit_def
        NL_def)
  show ?thesis
    using pdf_font_fallback [OF m1 e1] pdf_font_fallback [OF m2 e2] m1 e1 f1 m2 e2 f2 fb
    by simp
qed

subsection \<open>The AI response parser\<close>

text \<open>
  C5. The parser hands \<open>JSON.parse\<close> the reply with the fence markers removed and the
  result trimmed. After the removal no triple backtick is left anywhere, before or
  after trimming. A marker that follows backtick-free text is removed together with
  the tag \<open>json\<close> when the tag follows it, and alone otherwise. A reply without any
  triple backtick is cleaned to its trimmed self, so it is parsed as its trimmed self
  is.
\<close>

theorem fences_stripped_before_parsing:
  "parseReply env reply = library (jsonParse env (trim (stripFences reply))) \<and>
   \<not> includesStr (stripFences reply) fence \<and>
   \<not> includesStr (cleanJson reply) fence \<and>
   (96 \<notin> set a \<longrightarrow> stripFences (a @ fence @ lit ''json'' @ b) = a @ stripFences b) \<and>
   (96 \<notin> set a \<and> \<not> prefix (lit ''json'') b \<longrightarrow>
      stripFences (a @ fence @ b) = a @ stripFences b) \<and>
   (\<not> includesStr reply fence \<longrightarrow>
      cleanJson reply = trim reply \<and>
      parseReply env reply = library (jsonParse env (trim reply)) \<and>
      parseReply env reply = parseReply env (trim reply))"
proof (intro conjI impI)
  show "parseReply env reply = library (jsonParse env (trim (stripFences reply)))"
    by (simp add: parseReply_def cleanJson_def)
  show "\<not> includesStr (stripFences reply) fence"
    by (simp add: includesStr_sublist stripFences_no_fence)
  show "\<not> includesStr (cleanJson reply) fence"
    using stripFences_no_fence [of reply] sublist_trim [of "stripFences reply"]
    by (auto simp: includesStr_sublist cleanJson_def dest: sublist_order.order_trans)
  show "stripFences (a @ fence @ lit ''json'' @ b) = a @ stripFences b" if "96 \<notin> set a"
    using that by (rule stripFences_fence_json)
  show "stripFences (a @ fence @ b) = a @ stripFences b"
    if "96 \<notin> set a \<and> \<not> prefix (lit ''json'') b"
    using that by (simp add: stripFences_fence_plain)
next
  assume nf: "\<not> includesStr reply fence"
  then have id: "stripFences reply = reply"
    by (simp add: includesStr_sublist stripFences_id)
  then show c: "cleanJson reply = trim reply"
    by (simp add: cleanJson_def)
  then show "parseReply env reply = library (jsonParse env (trim reply))"
    by (simp add: parseReply_def)
  have "\<not> sublist fence (trim reply)"
    using nf sublist_trim [of reply]
    by (auto simp: includesStr_sublist dest: sublist_order.order_trans)
  then have "cleanJson (trim reply) = trim reply"
    by (simp add: cleanJson_def stripFences_id trim_idem)
  with c show "parseReply env reply = parseReply env (trim reply)"
    by (simp add: parseReply_def)
qed

theorem fences_stripped_before_parsing_witness:
  "96 \<notin> set (lit ''Here: '') \<and> \<not> prefix (lit ''json'') (lit ''{}'') \<and>
   stripFences (lit ''Here: '' @ fence @ lit ''json'' @ lit ''{}'') = lit ''Here: {}'' \<and>
   stripFences (lit ''Here: '' @ fence @ lit ''{}'') = lit ''Here: {}'' \<and>
   \<not> includesStr (lit '' {} '') fence \<and>
   cleanJson (lit '' {} '') = lit ''{}'' \<and>
   parseReply sampleEnv (lit '' {} '') = parseReply sampleEnv (lit ''{}'')"
  using fences_stripped_before_parsing
          [of sampleEnv "lit '' {} ''" "lit ''Here: ''" "lit ''{}''"]
  by (simp add: parseReply_def cleanJson_def fence_def string_eval stripFences.simps)

subsection \<open>Format detection\<close>

text \<open>
  C6. Detection classifies the buffer by its content first. When file-type recognises
  the content, the MIME type it reports decides the dispatch and the caller's hint is
  not read: any two hints give the same invocations and the same result. The hint
  (the empty string when absent) is the classification only when file-type does not
  recognise the content.
\<close>

theorem hint_only_when_content_unrecognised:
  "(fileTypeFromBuffer env buffer = Some m \<and> m \<noteq> [] \<longrightarrow>
      detectMime env buffer hint = m \<and>
      extractText env buffer hint = extractText env buffer hint') \<and>
   (fileTypeFromBuffer env buffer = None \<longrightarrow>
      detectMime env buffer hint = (case hint of None \<Rightarrow> [] | Some h \<Rightarrow> h))"
  by (simp add: detectMime_def extractText_def)

theorem hint_only_when_content_unrecognised_witness:
  "fileTypeFromBuffer sampleEnv (pdfSignature @ [45]) = Some (lit ''application/pdf'') \<and>
   lit ''application/pdf'' \<noteq> [] \<and>
   detectMime sampleEnv (pdfSignature @ [45]) (Some (lit ''text/plain'')) =
     lit ''application/pdf'' \<and>
   extractText sampleEnv (pdfSignature @ [45]) (Some (lit ''text/plain'')) =
     extractText sampleEnv (pdfSignature @ [45]) None \<and>
   fileTypeFromBuffer sampleEnv [104, 105] = None \<and>
   detectMime sampleEnv [104, 105] (Some (lit ''text/plain'')) = lit ''text/plain''"
  using hint_only_when_content_unrecognised
          [of sampleEnv "pdfSignature @ [45]" "lit ''application/pdf''"
              "Some (lit ''text/plain'')" None]
        hint_only_when_content_unrecognised
          [of sampleEnv "[104, 105]" "[]" "Some (lit ''text/plain'')" None]
  by (simp add: sampleEnv_def pdfSignature_def lit_def)

subsection \<open>The unsupported-format failure\<close>

text \<open>
  C7. The dispatcher throws its unsupported-file-type error exactly when the buffer is
  classified as neither PDF nor Word (docx or msword MIME type) and its UTF-8 decoding
  trims to the empty string. The error's message names PDF, DOCX, DOC and TXT. When an
  upload ends in this error, analyze-resume answers with status 500 and the message as
  details, and rewrite-resume answers with status 500 as well.
\<close>

theorem unsupported_format_exactly_when_unclassified_and_blank:
  "(snd (extractText env buffer hint) = Inl unsupportedFileType \<longleftrightarrow>
      detectMime env buffer hint \<noteq> lit ''application/pdf'' \<and>
      detectMime env buffer hint \<noteq>
        lit ''application/vnd.openxmlformats-officedocument.wordprocessingml.document'' \<and>
      detectMime env buffer hint \<noteq> lit ''application/msword'' \<and>
      trim (toStringUtf8 env buffer) = []) \<and>
   message unsupportedFileType =
     Some (lit ''Unsupported file type. Please upload a PDF, DOCX, DOC, or TXT file.'') \<and>
   (payload \<noteq> [] \<and> base64Data payload = Some b64 \<and>
    snd (extractText env (fromBase64 env b64) mt) = Inl unsupportedFileType \<longrightarrow>
      analyzeResume env \<lparr>resumeText = Some payload, mimeType = mt\<rparr> =
        \<lparr>status = 500, headers = [],
         body = Failure (lit ''AI analysis failed'') (message unsupportedFileType)\<rparr> \<and>
      status (rewriteResume env
                \<lparr>resumeFile = Some payload, rewriteMimeType = mt,
                 critiqueField = Some c\<rparr>) = 500)"
proof (intro conjI impI)
  show "snd (extractText env buffer hint) = Inl unsupportedFileType \<longleftrightarrow>
      detectMime env buffer hint \<noteq> lit ''application/pdf'' \<and>
      detectMime env buffer hint \<noteq>
        lit ''application/vnd.openxmlformats-officedocument.wordprocessingml.document'' \<and>
      detectMime env buffer hint \<noteq> lit ''application/msword'' \<and>
      trim (toStringUtf8 env buffer) = []"
    by (rule unsupported_iff)
next
  show "message unsupportedFileType =
     Some (lit ''Unsupported file type. Please upload a PDF, DOCX, DOC, or TXT file.'')"
    by (simp add: unsupportedFileType_def)
next
  assume h: "payload \<noteq> [] \<and> base64Data payload = Some b64 \<and>
    snd (extractText env (fromBase64 env b64) mt) = Inl unsupportedFileType"
  then show "analyzeResume env \<lparr>resumeText = Some payload, mimeType = mt\<rparr> =
        \<lparr>status = 500, headers = [],
         body = Failure (lit ''AI analysis failed'') (message unsupportedFileType)\<rparr>"
    by (simp add: analyzeResume_def analyzeExtracted_def failure_def unsupportedFileType_def
        lit_def)
  from h show "status (rewriteResume env
                \<lparr>resumeFile = Some payload, rewriteMimeType = mt,
                 critiqueField = Some c\<rparr>) = 500"
    by (simp add: rewriteResume_def rewriteExtracted_def failure_def)
qed

theorem unsupported_format_exactly_when_unclassified_and_blank_witness:
  "snd (extractText sampleEnv [32, 10] None) = Inl unsupportedFileType \<and>
   detectMime sampleEnv [32, 10] None = [] \<and>
   trim (toStringUtf8 sampleEnv [32, 10]) = [] \<and>
   lit ''IAo='' \<noteq> [] \<and> base64Data (lit ''IAo='') = Some (lit ''IAo='') \<and>
   fromBase64 sampleEnv (lit ''IAo='') = [32, 10] \<and>
   status (analyzeResume sampleEnv \<lparr>resumeText = Some (lit ''IAo=''), mimeType = None\<rparr>) = 500 \<and>
   status (rewriteResume sampleEnv
             \<lparr>resumeFile = Some (lit ''IAo=''), rewriteMimeType = None,
              critiqueField = Some \<lparr>strengths = [], weaknesses = [], suggestions = [],
                                    overall = []\<rparr>\<rparr>) = 500"
proof -
  have p: "lit ''IAo='' \<noteq> []"
    by (simp add: lit_def)
  have d: "detectMime sampleEnv [32, 10] None = []"
    by (simp add: detectMime_def sampleEnv_def pdfSignature_def)
  have x: "snd (extractText sampleEnv (fromBase64 sampleEnv (lit ''IAo='')) None) =
             Inl unsupportedFileType"
    by (simp add: fromBase64_sample extractText_blank)
  show ?thesis
    using unsupported_format_exactly_when_unclassified_and_blank
            [of sampleEnv "[32, 10]" None "lit ''IAo=''" "lit ''IAo=''" None
                "\<lparr>strengths = [], weaknesses = [], suggestions = [], overall = []\<rparr>"]
          p d x base64Data_IAo fromBase64_sample extractText_blank
    by simp
qed

subsection \<open>The download handler\<close>

text \<open>
  C8. A download request that carries a rewritten resume and the format \<open>pdf\<close> is
  answered with the JSON object \<open>{success: true, plainText}\<close> holding the plain-text
  rendering; nothing is sent as a buffer and no attachment header is set.
\<close>

theorem download_pdf_returns_plain_text_json:
  "downloadResume env \<lparr>rewrittenResumeField = Some r, format = Some (lit ''pdf'')\<rparr> =
     \<lparr>status = 200, headers = [], body = PlainTextJson (plainText r)\<rparr>"
  by (simp add: downloadResume_def lit_def)

theorem download_pdf_returns_plain_text_json_witness:
  "body (downloadResume sampleEnv
           \<lparr>rewrittenResumeField = Some sampleResume, format = Some (lit ''pdf'')\<rparr>) =
     PlainTextJson (plainText sampleResume)"
  using download_pdf_returns_plain_text_json [of sampleEnv sampleResume] by simp

text \<open>
  C10, as stated, fails. The document is stamped with the time of its creation and
  the stamp is part of what is packed, so a \<open>doc\<close> request and a \<open>docx\<close> request for
  the same resume, handled one second apart, send different buffers.
\<close>

theorem doc_and_docx_buffers_differ_with_the_clock:
  "body (downloadResume sampleEnv
           \<lparr>rewrittenResumeField = Some sampleResume, format = Some (lit ''doc'')\<rparr>) =
     SendBuffer [80, 75, 0] \<and>
   body (downloadResume sampleEnvLater
           \<lparr>rewrittenResumeField = Some sampleResume, format = Some (lit ''docx'')\<rparr>) =
     SendBuffer [80, 75, 1] \<and>
   body (downloadResume sampleEnv
           \<lparr>rewrittenResumeField = Some sampleResume, format = Some (lit ''doc'')\<rparr>) \<noteq>
   body (downloadResume sampleEnvLater
           \<lparr>rewrittenResumeField = Some sampleResume, format = Some (lit ''docx'')\<rparr>)"
  by (simp add: downloadResume_def sampleEnv_def sampleEnvLater_def resumeDocument_def
      library_def lit_def)

text \<open>
  C10, amended. The sections of the document are the same whenever it is built; only
  its creation stamp is the clock reading. A \<open>doc\<close> request and a \<open>docx\<close> request for the
  same resume that are handled at the same clock reading hand the same document to the
  packer: when it packs, both send that one buffer with the same Office Open XML content
  type and status 200, and the responses differ in the file name of the
  Content-Disposition header only, \<open>resume.doc\<close> against \<open>resume.docx\<close>; when it
  rejects, both answer 500 with \<open>Download failed\<close> and its message.
\<close>

theorem doc_and_docx_same_document_other_file_name:
  "(toBuffer env (resumeDocument (dateNow env) r) = Inr packed \<longrightarrow>
      downloadResume env \<lparr>rewrittenResumeField = Some r, format = Some (lit ''doc'')\<rparr> =
        \<lparr>status = 200,
         headers = [(lit ''Content-Type'', docxMime),
                    (lit ''Content-Disposition'',
                     lit ''attachment; filename='' @ [34] @ lit ''resume.doc'' @ [34])],
         body = SendBuffer packed\<rparr> \<and>
      downloadResume env \<lparr>rewrittenResumeField = Some r, format = Some (lit ''docx'')\<rparr> =
        \<lparr>status = 200,
         headers = [(lit ''Content-Type'', docxMime),
                    (lit ''Content-Disposition'',
                     lit ''attachment; filename='' @ [34] @ lit ''resume.docx'' @ [34])],
         body = SendBuffer packed\<rparr>) \<and>
   (toBuffer env (resumeDocument (dateNow env) r) = Inl m \<longrightarrow>
      downloadResume env \<lparr>rewrittenResumeField = Some r, format = Some (lit ''doc'')\<rparr> =
        \<lparr>status = 500, headers = [], body = Failure (lit ''Download failed'') m\<rparr> \<and>
      downloadResume env \<lparr>rewrittenResumeField = Some r, format = Some (lit ''docx'')\<rparr> =
        \<lparr>status = 500, headers = [], body = Failure (lit ''Download failed'') m\<rparr>) \<and>
   sections (resumeDocument now r) = sections (resumeDocument now' r) \<and>
   created (resumeDocument now r) = now"
  by (simp add: downloadResume_def resumeDocument_def library_def failure_def lit_def)

theorem doc_and_docx_same_document_other_file_name_witness:
  "toBuffer sampleEnv (resumeDocument (dateNow sampleEnv) sampleResume) = Inr [80, 75, 0] \<and>
   body (downloadResume sampleEnv
           \<lparr>rewrittenResumeField = Some sampleResume, format = Some (lit ''doc'')\<rparr>) =
   body (downloadResume sampleEnv
           \<lparr>rewrittenResumeField = Some sampleResume, format = Some (lit ''docx'')\<rparr>) \<and>
   toBuffer (sampleEnv\<lparr>toBuffer := \<lambda>d. Inl (Some (lit ''Out of memory''))\<rparr>)
     (resumeDocument (dateNow sampleEnv) sampleResume) = Inl (Some (lit ''Out of memory'')) \<and>
   status (downloadResume (sampleEnv\<lparr>toBuffer := \<lambda>d. Inl (Some (lit ''Out of memory''))\<rparr>)
             \<lparr>rewrittenResumeField = Some sampleResume, format = Some (lit ''docx'')\<rparr>) = 500"
proof -
  let ?failing = "sampleEnv\<lparr>toBuffer := \<lambda>d. Inl (Some (lit ''Out of memory''))\<rparr>"
  have p: "toBuffer sampleEnv (resumeDocument (dateNow sampleEnv) sampleResume) =
             Inr [80, 75, 0]"
    by (simp add: sampleEnv_def resumeDocument_def)
  have f: "toBuffer ?failing (resumeDocument (dateNow ?failing) sampleResume) =
             Inl (Some (lit ''Out of memory''))"
    by simp
  have d: "dateNow ?failing = dateNow sampleEnv"
    by simp
  show ?thesis
    using doc_and_docx_same_document_other_file_name
            [of sampleEnv sampleResume "[80, 75, 0]" None 0 0]
          doc_and_docx_same_document_other_file_name
            [of ?failing sampleResume "[]" "Some (lit ''Out of memory'')" 0 0]
          p f d
    by simp
qed

subsection \<open>The payload of an upload\<close>

text \<open>
  C9. What the handlers hand to the base64 decoder is always defined. For a payload
  that does not contain \<open>base64,\<close> it is the whole payload. For a payload in which
  \<open>base64,\<close> occurs once, at position \<open>i\<close>, it is everything after that occurrence.
  For a payload in which it occurs at \<open>i\<close> and next at \<open>j\<close>, the second occurrence
  starts after the end of the first and the segment is what lies strictly between the
  two: whatever follows the second occurrence is dropped. Both handlers decode exactly
  this segment with \<open>Buffer.from(_, 'base64')\<close>, and their answer is what they make of
  the dispatcher's outcome on the decoded bytes.
\<close>

theorem payload_between_first_two_markers:
  "(includesStr x (lit ''base64,'') \<longleftrightarrow> occurrences (lit ''base64,'') x \<noteq> []) \<and>
   (occurrences (lit ''base64,'') x = [] \<longrightarrow> base64Data x = Some x) \<and>
   (occurrences (lit ''base64,'') x = [i] \<longrightarrow> base64Data x = Some (drop (i + 7) x)) \<and>
   (occurrences (lit ''base64,'') x = i # j # others \<longrightarrow>
      i + 7 \<le> j \<and> base64Data x = Some (take (j - (i + 7)) (drop (i + 7) x))) \<and>
   (x \<noteq> [] \<and> base64Data x = Some segment \<longrightarrow>
      analyzeResume env \<lparr>resumeText = Some x, mimeType = mt\<rparr> =
        analyzeExtracted env (snd (extractText env (fromBase64 env segment) mt)) \<and>
      rewriteResume env
        \<lparr>resumeFile = Some x, rewriteMimeType = mt, critiqueField = Some c\<rparr> =
        rewriteExtracted env c (snd (extractText env (fromBase64 env segment) mt)))"
proof (intro conjI impI)
  assume seg: "x \<noteq> [] \<and> base64Data x = Some segment"
  then show "analyzeResume env \<lparr>resumeText = Some x, mimeType = mt\<rparr> =
        analyzeExtracted env (snd (extractText env (fromBase64 env segment) mt))"
    by (simp add: analyzeResume_def)
  from seg show "rewriteResume env
        \<lparr>resumeFile = Some x, rewriteMimeType = mt, critiqueField = Some c\<rparr> =
        rewriteExtracted env c (snd (extractText env (fromBase64 env segment) mt))"
    by (simp add: rewriteResume_def)
next
  let ?P = "\<lambda>k. prefix base64Marker (drop k x)"
  let ?y = "drop (i + 7) x"
  note len = base64Marker_length
  have beyond: "\<not> ?P k" if "length x \<le> k" for k
    using that base64Marker_ne by simp
  have shift: "drop k ?y = drop (k + (i + 7)) x" for k
    by simp
  show inc: "includesStr x (lit ''base64,'') \<longleftrightarrow> occurrences (lit ''base64,'') x \<noteq> []"
    using includesStr_occurrences [OF base64Marker_ne] by (simp add: base64Marker_def)
  show "base64Data x = Some x" if "occurrences (lit ''base64,'') x = []"
    using that inc by (simp add: base64Data_def)
  have first:
    "split x base64Marker = take i x # splitFrom base64Marker [] ?y \<and>
     includesStr x base64Marker \<and> rest = filter ?P [Suc i..<length x]"
    if "occurrences base64Marker x = i # rest" for rest
  proof -
    from that have f: "filter ?P [0..<length x] = i # rest"
      by (simp add: occurrences_def)
    from filter_upt_Cons [OF f]
    have "?P i" and "\<forall>k<i. \<not> ?P k" and r: "rest = filter ?P [Suc i..<length x]"
      by simp_all
    then have "splitFrom base64Marker [] x =
                 take i x # splitFrom base64Marker [] (drop (i + length base64Marker) x)"
      by (intro split_first base64Marker_ne)
    moreover have "includesStr x base64Marker"
      using that includesStr_occurrences [OF base64Marker_ne, of x] by simp
    ultimately show ?thesis
      using r by (simp add: split_def len)
  qed
  show "base64Data x = Some (drop (i + 7) x)" if "occurrences (lit ''base64,'') x = [i]"
  proof -
    from that have o: "occurrences base64Marker x = [i]"
      by (simp add: base64Marker_def)
    from first [OF o] have s: "split x base64Marker = take i x # splitFrom base64Marker [] ?y"
      and inc: "includesStr x base64Marker" and e: "filter ?P [Suc i..<length x] = []"
      by simp_all
    have "\<not> prefix base64Marker (drop k ?y)" for k
    proof (cases "k + (i + 7) < length x")
      case True
      with e have "\<not> ?P (k + (i + 7))"
        by (simp add: filter_empty_conv)
      then show ?thesis unfolding shift .
    next
      case False
      then have "\<not> ?P (k + (i + 7))"
        by (intro beyond) simp
      then show ?thesis unfolding shift .
    qed
    then have "splitFrom base64Marker [] ?y = [?y]"
      by (intro split_none base64Marker_ne) blast
    with s inc show ?thesis
      by (simp add: base64Data_def base64Marker_def)
  qed
  assume "occurrences (lit ''base64,'') x = i # j # others"
  then have o: "occurrences base64Marker x = i # j # others"
    by (simp add: base64Marker_def)
  from first [OF o] have s: "split x base64Marker = take i x # splitFrom base64Marker [] ?y"
    and inc: "includesStr x base64Marker" and f: "filter ?P [Suc i..<length x] = j # others"
    by simp_all
  from o have "filter ?P [0..<length x] = i # j # others"
    by (simp add: occurrences_def)
  from filter_upt_Cons [OF this] have pi: "?P i"
    by simp
  from filter_upt_Cons [OF f]
  have j: "Suc i \<le> j" "?P j" "\<forall>k. Suc i \<le> k \<and> k < j \<longrightarrow> \<not> ?P k"
    by simp_all
  from pi j(2) j(1) show ij: "i + 7 \<le> j"
    by (intro base64Marker_no_overlap) simp_all
  have at: "prefix base64Marker (drop (j - (i + 7)) ?y)"
    using j(2) ij by simp
  have before: "\<forall>k < j - (i + 7). \<not> prefix base64Marker (drop k ?y)"
  proof (intro allI impI)
    fix k assume "k < j - (i + 7)"
    then have "Suc i \<le> k + (i + 7) \<and> k + (i + 7) < j"
      by simp
    with j(3) have "\<not> ?P (k + (i + 7))"
      by blast
    then show "\<not> prefix base64Marker (drop k ?y)"
      unfolding shift .
  qed
  have "splitFrom base64Marker [] ?y =
          take (j - (i + 7)) ?y #
          splitFrom base64Marker [] (drop (j - (i + 7) + length base64Marker) ?y)"
    using base64Marker_ne at before by (rule split_first)
  with s inc show "base64Data x = Some (take (j - (i + 7)) (drop (i + 7) x))"
    by (simp add: base64Data_def base64Marker_def)
qed

theorem payload_between_first_two_markers_witness:
  "occurrences (lit ''base64,'') (lit ''aGk='') = [] \<and>
   base64Data (lit ''aGk='') = Some (lit ''aGk='') \<and>
   occurrences (lit ''base64,'') (lit ''data:text/plain;base64,aGk='') = [16] \<and>
   base64Data (lit ''data:text/plain;base64,aGk='') = Some (lit ''aGk='') \<and>
   occurrences (lit ''base64,'') (lit ''data:a;base64,aGk=base64,IAo='') = [7, 18] \<and>
   base64Data (lit ''data:a;base64,aGk=base64,IAo='') = Some (lit ''aGk='') \<and>
   lit ''data:a;base64,aGk=base64,IAo='' \<noteq> [] \<and>
   analyzeResume sampleEnv
     \<lparr>resumeText = Some (lit ''data:a;base64,aGk=base64,IAo=''), mimeType = None\<rparr> =
   analyzeExtracted sampleEnv (Inr (lit ''hi'')) \<and>
   rewriteResume sampleEnv
     \<lparr>resumeFile = Some (lit ''data:a;base64,aGk=base64,IAo=''), rewriteMimeType = None,
      critiqueField = Some \<lparr>strengths = [], weaknesses = [], suggestions = [],
                            overall = []\<rparr>\<rparr> =
   rewriteExtracted sampleEnv
     \<lparr>strengths = [], weaknesses = [], suggestions = [], overall = []\<rparr> (Inr (lit ''hi''))"
proof -
  let ?c = "\<lparr>strengths = [], weaknesses = [], suggestions = [], overall = []\<rparr>"
  have o0: "occurrences (lit ''base64,'') (lit ''aGk='') = []"
    by (simp add: occurrences_def lit_def upt_rec)
  have o1: "occurrences (lit ''base64,'') (lit ''data:text/plain;base64,aGk='') = [16]"
    by (simp add: occurrences_def lit_def upt_rec)
  have o2: "occurrences (lit ''base64,'') (lit ''data:a;base64,aGk=base64,IAo='') = [7, 18]"
    by (simp add: occurrences_def lit_def upt_rec)
  have ne: "lit ''data:a;base64,aGk=base64,IAo='' \<noteq> []"
    by (simp add: lit_def)
  have b0: "base64Data (lit ''aGk='') = Some (lit ''aGk='')"
    using payload_between_first_two_markers
            [of "lit ''aGk=''" 0 0 "[]" "lit ''aGk=''" sampleEnv None ?c] o0
    by simp
  have b1: "base64Data (lit ''data:text/plain;base64,aGk='') = Some (lit ''aGk='')"
    using payload_between_first_two_markers
            [of "lit ''data:text/plain;base64,aGk=''" 16 0 "[]" "lit ''aGk=''" sampleEnv None
                ?c] o1
    by (simp add: lit_def)
  have b2: "base64Data (lit ''data:a;base64,aGk=base64,IAo='') = Some (lit ''aGk='')"
    using payload_between_first_two_markers
            [of "lit ''data:a;base64,aGk=base64,IAo=''" 7 18 "[]" "lit ''aGk=''" sampleEnv None
                ?c] o2
    by (simp add: lit_def)
  have x: "snd (extractText sampleEnv (fromBase64 sampleEnv (lit ''aGk='')) None) =
             Inr (lit ''hi'')"
    by (simp add: fromBase64_sample extractText_hi)
  have "analyzeResume sampleEnv
          \<lparr>resumeText = Some (lit ''data:a;base64,aGk=base64,IAo=''), mimeType = None\<rparr> =
        analyzeExtracted sampleEnv (Inr (lit ''hi'')) \<and>
        rewriteResume sampleEnv
          \<lparr>resumeFile = Some (lit ''data:a;base64,aGk=base64,IAo=''), rewriteMimeType = None,
           critiqueField = Some ?c\<rparr> =
        rewriteExtracted sampleEnv ?c (Inr (lit ''hi''))"
    using payload_between_first_two_markers
            [of "lit ''data:a;base64,aGk=base64,IAo=''" 7 18 "[]" "lit ''aGk=''" sampleEnv None
                ?c]
      ne b2 x
    by simp
  with o0 o1 o2 b0 b1 b2 ne show ?thesis
    by simp
qed

end
